theory Spec2Isabelle
  imports Complex_Main "HOL-Library.Word"
begin

unbundle bit_operations_syntax

section \<open>JavaScript values used by the client\<close>

text \<open>
  A JavaScript string is a sequence of UTF-16 code units; its \<open>length\<close> property counts
  code units. A Node \<open>Buffer\<close> is a sequence of bytes; its \<open>length\<close> counts bytes.
\<close>

type_synonym jsstring = "16 word list"
type_synonym byte = "8 word"
type_synonym buffer = "byte list"

text \<open>An ASCII literal of the source as a JavaScript string.\<close>

definition str :: "string \<Rightarrow> jsstring" where
  "str cs = map (\<lambda>c. of_nat (of_char c)) cs"

text \<open>
  Numbers. A JSON number is modelled by the rational value of its literal (the rounding of
  IEEE doubles is outside the model); a JavaScript number that may also be \<open>NaN\<close> or
  infinite, as the result of unary \<open>+\<close> on a string can be, is a \<open>jsnumber\<close>.
\<close>

datatype jsnumber = NaN | Finite rat | PosInfinity | NegInfinity

datatype json =
    JNull
  | JBool bool
  | JNumber rat
  | JString jsstring
  | JArray "json list"
  | JObject "(jsstring \<times> json) list"

text \<open>
  Exceptions: the error class and the \<open>message\<close> of the error object. The message of an
  error raised by the runtime itself is engine-specific and kept empty. An error object has
  no enumerable property of its own, unless application code has added one: \<open>CircularError\<close>
  is an \<open>Error\<close> that application code has given an enumerable property referring to the
  error itself (\<open>e.self = e\<close>) before throwing it.
\<close>

datatype error_class = Error | TypeError | SyntaxError

datatype js_error = JsError error_class jsstring | CircularError jsstring

fun error_message :: "js_error \<Rightarrow> jsstring" where
  "error_message (JsError c m) = m"
| "error_message (CircularError m) = m"

text \<open>
  \<open>JSON.stringify\<close> of an error object: \<open>{}\<close> without enumerable properties, a \<open>TypeError\<close>
  when a property leads back to the object.
\<close>

fun stringify_error :: "js_error \<Rightarrow> js_error + jsstring" where
  "stringify_error (JsError c m) = Inr (str ''{}'')"
| "stringify_error (CircularError m) = Inl (JsError TypeError [])"

subsection \<open>Number to string\<close>

definition digit_unit :: "nat \<Rightarrow> 16 word" where
  "digit_unit d = of_nat (48 + d)"

fun nat_digits :: "nat \<Rightarrow> jsstring" where
  "nat_digits n = (if n < 10 then [digit_unit n] else nat_digits (n div 10) @ [digit_unit (n mod 10)])"

text \<open>The digits after the decimal point of a rational in \<open>[0, 1)\<close>, at most \<open>k\<close> of them.\<close>

fun frac_digits :: "nat \<Rightarrow> rat \<Rightarrow> jsstring" where
  "frac_digits 0 r = []"
| "frac_digits (Suc k) r =
     (if r = 0 then []
      else digit_unit (nat \<lfloor>r * 10\<rfloor>) # frac_digits k (r * 10 - of_int \<lfloor>r * 10\<rfloor>))"

text \<open>
  \<open>Number::toString\<close>. Exact on integers; a non-integer prints the decimal expansion of its
  value (17 significant fractional digits at most, no exponent notation).
\<close>

definition number_to_string :: "rat \<Rightarrow> jsstring" where
  "number_to_string q =
     (let a = \<bar>q\<bar>; i = \<lfloor>a\<rfloor>; f = a - of_int i
      in (if q < 0 then str ''-'' else []) @ nat_digits (nat i)
         @ (if f = 0 then [] else str ''.'' @ frac_digits 17 f))"

subsection \<open>UTF-8\<close>

text \<open>
  Writing a string to a stream, and converting it to a \<open>Buffer\<close>, encodes it as UTF-8: a
  surrogate pair is one code point of four bytes, a lone surrogate becomes U+FFFD.
\<close>

definition replacement_bytes :: buffer where
  "replacement_bytes = [0xEF, 0xBF, 0xBD]"

definition is_high_surrogate :: "nat \<Rightarrow> bool" where
  "is_high_surrogate c = (0xD800 \<le> c \<and> c < 0xDC00)"

definition is_low_surrogate :: "nat \<Rightarrow> bool" where
  "is_low_surrogate c = (0xDC00 \<le> c \<and> c < 0xE000)"

definition utf8_bytes3 :: "nat \<Rightarrow> buffer" where
  "utf8_bytes3 c = [of_nat (0xE0 + c div 0x1000), of_nat (0x80 + (c div 0x40) mod 0x40),
                    of_nat (0x80 + c mod 0x40)]"

definition utf8_bytes4 :: "nat \<Rightarrow> buffer" where
  "utf8_bytes4 c = [of_nat (0xF0 + c div 0x40000), of_nat (0x80 + (c div 0x1000) mod 0x40),
                    of_nat (0x80 + (c div 0x40) mod 0x40), of_nat (0x80 + c mod 0x40)]"

fun utf8_encode :: "jsstring \<Rightarrow> buffer" where
  "utf8_encode [] = []"
| "utf8_encode (u # us) =
     (let c = unat u in
      if c < 0x80 then of_nat c # utf8_encode us
      else if c < 0x800 then of_nat (0xC0 + c div 0x40) # of_nat (0x80 + c mod 0x40) # utf8_encode us
      else if is_high_surrogate c then
        (case us of
           [] \<Rightarrow> replacement_bytes
         | v # vs \<Rightarrow>
             if is_low_surrogate (unat v)
             then utf8_bytes4 (0x10000 + (c - 0xD800) * 0x400 + (unat v - 0xDC00)) @ utf8_encode vs
             else replacement_bytes @ utf8_encode us)
      else if is_low_surrogate c then replacement_bytes @ utf8_encode us
      else utf8_bytes3 c @ utf8_encode us)"

text \<open>
  \<open>Buffer.toString("utf8")\<close>: a well-formed sequence gives its code point, as one code unit or
  a surrogate pair; every maximal ill-formed part gives one U+FFFD and decoding resumes at
  the byte that did not fit.
\<close>

definition code_point_units :: "nat \<Rightarrow> jsstring" where
  "code_point_units c =
     (if c < 0x10000 then [of_nat c]
      else [of_nat (0xD800 + (c - 0x10000) div 0x400), of_nat (0xDC00 + (c - 0x10000) mod 0x400)])"

definition in_range :: "nat \<Rightarrow> nat \<Rightarrow> byte \<Rightarrow> bool" where
  "in_range lo hi b = (lo \<le> unat b \<and> unat b \<le> hi)"

definition cont_bits :: "byte \<Rightarrow> nat" where
  "cont_bits b = unat b mod 0x40"

text \<open>The range allowed for the second byte after a lead byte of a three or four byte form.\<close>

definition second_lo :: "nat \<Rightarrow> nat" where
  "second_lo l = (if l = 0xE0 then 0xA0 else if l = 0xF0 then 0x90 else 0x80)"

definition second_hi :: "nat \<Rightarrow> nat" where
  "second_hi l = (if l = 0xED then 0x9F else if l = 0xF4 then 0x8F else 0xBF)"

fun utf8_decode :: "buffer \<Rightarrow> jsstring" where
  "utf8_decode [] = []"
| "utf8_decode (b # bs) =
     (let l = unat b in
      if l < 0x80 then of_nat l # utf8_decode bs
      else if 0xC2 \<le> l \<and> l \<le> 0xDF then
        (case bs of
           [] \<Rightarrow> [0xFFFD]
         | c1 # r1 \<Rightarrow>
             if in_range 0x80 0xBF c1
             then of_nat ((l - 0xC0) * 0x40 + cont_bits c1) # utf8_decode r1
             else 0xFFFD # utf8_decode bs)
      else if 0xE0 \<le> l \<and> l \<le> 0xEF then
        (case bs of
           [] \<Rightarrow> [0xFFFD]
         | c1 # r1 \<Rightarrow>
             if in_range (second_lo l) (second_hi l) c1 then
               (case r1 of
                  [] \<Rightarrow> [0xFFFD]
                | c2 # r2 \<Rightarrow>
                    if in_range 0x80 0xBF c2
                    then of_nat ((l - 0xE0) * 0x1000 + cont_bits c1 * 0x40 + cont_bits c2)
                         # utf8_decode r2
                    else 0xFFFD # utf8_decode r1)
             else 0xFFFD # utf8_decode bs)
      else if 0xF0 \<le> l \<and> l \<le> 0xF4 then
        (case bs of
           [] \<Rightarrow> [0xFFFD]
         | c1 # r1 \<Rightarrow>
             if in_range (second_lo l) (second_hi l) c1 then
               (case r1 of
                  [] \<Rightarrow> [0xFFFD]
                | c2 # r2 \<Rightarrow>
                    if in_range 0x80 0xBF c2 then
                      (case r2 of
                         [] \<Rightarrow> [0xFFFD]
                       | c3 # r3 \<Rightarrow>
                           if in_range 0x80 0xBF c3
                           then code_point_units ((l - 0xF0) * 0x40000 + cont_bits c1 * 0x1000
                                                  + cont_bits c2 * 0x40 + cont_bits c3)
                                @ utf8_decode r3
                           else 0xFFFD # utf8_decode r2)
                    else 0xFFFD # utf8_decode r1)
             else 0xFFFD # utf8_decode bs)
      else 0xFFFD # utf8_decode bs)"

subsection \<open>JSON.stringify\<close>

definition hex_digit :: "nat \<Rightarrow> 16 word" where
  "hex_digit d = (if d < 10 then of_nat (48 + d) else of_nat (87 + d))"

definition unicode_escape :: "nat \<Rightarrow> jsstring" where
  "unicode_escape c =
     [0x5C, 0x75] @ [hex_digit (c div 0x1000), hex_digit ((c div 0x100) mod 0x10),
                    hex_digit ((c div 0x10) mod 0x10), hex_digit (c mod 0x10)]"

text \<open>
  \<open>QuoteJSONString\<close> without the enclosing quotes: the two-character escapes (a backslash,
  0x5C, and a letter), the four-digit hexadecimal escape for the other control characters
  and for lone surrogates, every other code unit as it is.
\<close>

fun quote_units :: "jsstring \<Rightarrow> jsstring" where
  "quote_units [] = []"
| "quote_units (u # us) =
     (let c = unat u in
      if c = 0x08 then [0x5C, 0x62] @ quote_units us
      else if c = 0x09 then [0x5C, 0x74] @ quote_units us
      else if c = 0x0A then [0x5C, 0x6E] @ quote_units us
      else if c = 0x0C then [0x5C, 0x66] @ quote_units us
      else if c = 0x0D then [0x5C, 0x72] @ quote_units us
      else if c = 0x22 then [0x5C, 0x22] @ quote_units us
      else if c = 0x5C then [0x5C, 0x5C] @ quote_units us
      else if c < 0x20 then unicode_escape c @ quote_units us
      else if is_high_surrogate c then
        (case us of
           [] \<Rightarrow> unicode_escape c
         | v # vs \<Rightarrow>
             if is_low_surrogate (unat v) then u # v # quote_units vs
             else unicode_escape c @ quote_units us)
      else if is_low_surrogate c then unicode_escape c @ quote_units us
      else u # quote_units us)"

definition quote_json_string :: "jsstring \<Rightarrow> jsstring" where
  "quote_json_string s = [0x22] @ quote_units s @ [0x22]"

fun join :: "jsstring \<Rightarrow> jsstring list \<Rightarrow> jsstring" where
  "join sep [] = []"
| "join sep [x] = x"
| "join sep (x # y # ys) = x @ sep @ join sep (y # ys)"

text \<open>
  \<open>JSON.stringify(value, undefined, gap)\<close> at the current indentation; \<open>gap\<close> is empty for the
  compact form. A property whose value is \<open>undefined\<close> is not part of a \<open>json\<close> object, as it
  is not part of the text.
\<close>

definition wrap_items :: "jsstring \<Rightarrow> jsstring \<Rightarrow> jsstring \<Rightarrow> jsstring \<Rightarrow> jsstring list \<Rightarrow> jsstring" where
  "wrap_items gap indent opening closing items =
     (if items = [] then opening @ closing
      else if gap = [] then opening @ join (str '','') items @ closing
      else opening @ str ''\<newline>'' @ indent @ gap
           @ join (str '','' @ str ''\<newline>'' @ indent @ gap) items
           @ str ''\<newline>'' @ indent @ closing)"

fun serialize :: "jsstring \<Rightarrow> jsstring \<Rightarrow> json \<Rightarrow> jsstring" where
  "serialize gap indent JNull = str ''null''"
| "serialize gap indent (JBool b) = (if b then str ''true'' else str ''false'')"
| "serialize gap indent (JNumber q) = number_to_string q"
| "serialize gap indent (JString s) = quote_json_string s"
| "serialize gap indent (JArray xs) =
     wrap_items gap indent (str ''['') (str '']'') (map (serialize gap (indent @ gap)) xs)"
| "serialize gap indent (JObject kvs) =
     wrap_items gap indent (str ''{'') (str ''}'')
       (map (\<lambda>kv. quote_json_string (fst kv) @ str '':'' @ (if gap = [] then [] else str '' '')
                   @ serialize gap (indent @ gap) (snd kv)) kvs)"

definition JSON_stringify :: "json \<Rightarrow> jsstring" where
  "JSON_stringify v = serialize [] [] v"

definition JSON_stringify_indent2 :: "json \<Rightarrow> jsstring" where
  "JSON_stringify_indent2 v = serialize (str ''  '') [] v"

subsection \<open>JSON.parse\<close>

definition is_digit :: "16 word \<Rightarrow> bool" where
  "is_digit u = (48 \<le> unat u \<and> unat u \<le> 57)"

definition digits_value :: "jsstring \<Rightarrow> nat" where
  "digits_value ds = foldl (\<lambda>a d. 10 * a + (unat d - 48)) 0 ds"

definition is_json_ws :: "16 word \<Rightarrow> bool" where
  "is_json_ws u = (u = 0x20 \<or> u = 0x09 \<or> u = 0x0A \<or> u = 0x0D)"

definition skip_ws :: "jsstring \<Rightarrow> jsstring" where
  "skip_ws s = dropWhile is_json_ws s"

definition strip_prefix :: "jsstring \<Rightarrow> jsstring \<Rightarrow> jsstring option" where
  "strip_prefix lit s = (if take (length lit) s = lit then Some (drop (length lit) s) else None)"

definition hex_value :: "16 word \<Rightarrow> nat option" where
  "hex_value u =
     (let c = unat u in
      if 48 \<le> c \<and> c \<le> 57 then Some (c - 48)
      else if 65 \<le> c \<and> c \<le> 70 then Some (c - 55)
      else if 97 \<le> c \<and> c \<le> 102 then Some (c - 87)
      else None)"

text \<open>The character a two-character escape stands for.\<close>

definition simple_escape :: "16 word \<Rightarrow> 16 word option" where
  "simple_escape e =
     (if e = 0x22 then Some 0x22 else if e = 0x5C then Some 0x5C else if e = 0x2F then Some 0x2F
      else if e = 0x62 then Some 0x08 else if e = 0x66 then Some 0x0C
      else if e = 0x6E then Some 0x0A else if e = 0x72 then Some 0x0D
      else if e = 0x74 then Some 0x09 else None)"

definition cons_fst :: "'a \<Rightarrow> ('a list \<times> 'b) option \<Rightarrow> ('a list \<times> 'b) option" where
  "cons_fst x r = map_option (\<lambda>(xs, rest). (x # xs, rest)) r"

text \<open>The characters of a string literal after its opening quote, and the text after it.\<close>

fun parse_string_chars :: "jsstring \<Rightarrow> (jsstring \<times> jsstring) option" where
  "parse_string_chars [] = None"
| "parse_string_chars (u # us) =
     (if u = 0x22 then Some ([], us)
      else if u = 0x5C then
        (case us of
           [] \<Rightarrow> None
         | e # r \<Rightarrow>
             if e = 0x75 then
               (case r of
                  h1 # h2 # h3 # h4 # r' \<Rightarrow>
                    (case (hex_value h1, hex_value h2, hex_value h3, hex_value h4) of
                       (Some a, Some b, Some c, Some d) \<Rightarrow>
                         cons_fst (of_nat (a * 0x1000 + b * 0x100 + c * 0x10 + d))
                           (parse_string_chars r')
                     | _ \<Rightarrow> None)
                | _ \<Rightarrow> None)
             else
               (case simple_escape e of
                  None \<Rightarrow> None
                | Some c \<Rightarrow> cons_fst c (parse_string_chars r)))
      else if unat u < 0x20 then None
      else cons_fst u (parse_string_chars us))"

text \<open>
  A number literal: an optional minus, an integer part without a leading zero, an optional
  fraction, an optional exponent.
\<close>

definition parse_exponent :: "jsstring \<Rightarrow> (int \<times> jsstring) option" where
  "parse_exponent s =
     (case s of
        [] \<Rightarrow> Some (0, s)
      | e # r \<Rightarrow>
          if e = 0x65 \<or> e = 0x45 then
            (let neg = (case r of [] \<Rightarrow> False | c # _ \<Rightarrow> c = 0x2D);
                 r1 = (case r of [] \<Rightarrow> r | c # r' \<Rightarrow> if c = 0x2B \<or> c = 0x2D then r' else r);
                 ds = takeWhile is_digit r1
             in if ds = [] then None
                else Some ((if neg then - int (digits_value ds) else int (digits_value ds)),
                           dropWhile is_digit r1))
          else Some (0, s))"

definition pow10 :: "int \<Rightarrow> rat" where
  "pow10 e = (if 0 \<le> e then 10 ^ nat e else 1 / 10 ^ nat (- e))"

definition parse_number :: "jsstring \<Rightarrow> (rat \<times> jsstring) option" where
  "parse_number s =
     (let neg = (case s of [] \<Rightarrow> False | c # _ \<Rightarrow> c = 0x2D);
          s1 = (if neg then tl s else s);
          ds = takeWhile is_digit s1;
          r1 = dropWhile is_digit s1
      in if ds = [] \<or> (hd ds = 0x30 \<and> length ds > 1) then None
         else
           (let has_frac = (case r1 of [] \<Rightarrow> False | c # _ \<Rightarrow> c = 0x2E);
                fs = (if has_frac then takeWhile is_digit (tl r1) else []);
                r2 = (if has_frac then dropWhile is_digit (tl r1) else r1)
            in if has_frac \<and> fs = [] then None
               else
                 (case parse_exponent r2 of
                    None \<Rightarrow> None
                  | Some (e, r3) \<Rightarrow>
                      (let v = (of_nat (digits_value ds) + of_nat (digits_value fs) / 10 ^ length fs)
                               * pow10 e
                       in Some ((if neg then - v else v), r3)))))"

text \<open>
  Defining a property: a name met again keeps its place and takes the new value. (The engine
  lists integer-like names first; no message of the protocol has such names.)
\<close>

fun obj_set :: "(jsstring \<times> json) list \<Rightarrow> jsstring \<Rightarrow> json \<Rightarrow> (jsstring \<times> json) list" where
  "obj_set [] k v = [(k, v)]"
| "obj_set ((k', v') # kvs) k v = (if k' = k then (k, v) # kvs else (k', v') # obj_set kvs k v)"

definition make_object :: "(jsstring \<times> json) list \<Rightarrow> json" where
  "make_object members = JObject (foldl (\<lambda>acc kv. obj_set acc (fst kv) (snd kv)) [] members)"

text \<open>
  The recursive descent over values takes the number of calls it may still make; twice the
  length of the text and two more are enough, since every second call consumes a character.
\<close>

fun parse_value :: "nat \<Rightarrow> jsstring \<Rightarrow> (json \<times> jsstring) option"
and parse_elements :: "nat \<Rightarrow> jsstring \<Rightarrow> (json list \<times> jsstring) option"
and parse_members :: "nat \<Rightarrow> jsstring \<Rightarrow> ((jsstring \<times> json) list \<times> jsstring) option" where
  "parse_value 0 s = None"
| "parse_value (Suc n) s =
     (case skip_ws s of
        [] \<Rightarrow> None
      | u # us \<Rightarrow>
          if u = 0x22 then map_option (\<lambda>(cs, r). (JString cs, r)) (parse_string_chars us)
          else if u = 0x5B then
            (case skip_ws us of
               [] \<Rightarrow> None
             | c # r \<Rightarrow>
                 if c = 0x5D then Some (JArray [], r)
                 else map_option (\<lambda>(vs, r'). (JArray vs, r')) (parse_elements n us))
          else if u = 0x7B then
            (case skip_ws us of
               [] \<Rightarrow> None
             | c # r \<Rightarrow>
                 if c = 0x7D then Some (JObject [], r)
                 else map_option (\<lambda>(ms, r'). (make_object ms, r')) (parse_members n us))
          else if u = 0x6E then map_option (\<lambda>r. (JNull, r)) (strip_prefix (str ''null'') (u # us))
          else if u = 0x74 then map_option (\<lambda>r. (JBool True, r)) (strip_prefix (str ''true'') (u # us))
          else if u = 0x66 then map_option (\<lambda>r. (JBool False, r)) (strip_prefix (str ''false'') (u # us))
          else if u = 0x2D \<or> is_digit u then map_option (\<lambda>(q, r). (JNumber q, r)) (parse_number (u # us))
          else None)"
| "parse_elements 0 s = None"
| "parse_elements (Suc n) s =
     (case parse_value n s of
        None \<Rightarrow> None
      | Some (v, r) \<Rightarrow>
          (case skip_ws r of
             [] \<Rightarrow> None
           | c # r' \<Rightarrow>
               if c = 0x2C then cons_fst v (parse_elements n r')
               else if c = 0x5D then Some ([v], r')
               else None))"
| "parse_members 0 s = None"
| "parse_members (Suc n) s =
     (case skip_ws s of
        [] \<Rightarrow> None
      | q # s1 \<Rightarrow>
          if q \<noteq> 0x22 then None
          else
            (case parse_string_chars s1 of
               None \<Rightarrow> None
             | Some (k, s2) \<Rightarrow>
                 (case skip_ws s2 of
                    [] \<Rightarrow> None
                  | colon # s3 \<Rightarrow>
                      if colon \<noteq> 0x3A then None
                      else
                        (case parse_value n s3 of
                           None \<Rightarrow> None
                         | Some (v, r) \<Rightarrow>
                             (case skip_ws r of
                                [] \<Rightarrow> None
                              | c # r' \<Rightarrow>
                                  if c = 0x2C then cons_fst (k, v) (parse_members n r')
                                  else if c = 0x7D then Some ([(k, v)], r')
                                  else None)))))"

text \<open>\<open>JSON.parse\<close>: one value, white space around it, nothing else; otherwise a \<open>SyntaxError\<close>.\<close>

definition JSON_parse :: "jsstring \<Rightarrow> js_error + json" where
  "JSON_parse text =
     (case parse_value (2 * length text + 2) text of
        None \<Rightarrow> Inl (JsError SyntaxError [])
      | Some (v, r) \<Rightarrow> if skip_ws r = [] then Inr v else Inl (JsError SyntaxError []))"

subsection \<open>Unary plus on a string\<close>

definition is_js_whitespace :: "16 word \<Rightarrow> bool" where
  "is_js_whitespace u =
     (let c = unat u in
      c = 0x09 \<or> c = 0x0A \<or> c = 0x0B \<or> c = 0x0C \<or> c = 0x0D \<or> c = 0x20 \<or> c = 0xA0
      \<or> c = 0x1680 \<or> (0x2000 \<le> c \<and> c \<le> 0x200A) \<or> c = 0x2028 \<or> c = 0x2029
      \<or> c = 0x202F \<or> c = 0x205F \<or> c = 0x3000 \<or> c = 0xFEFF)"

definition trim :: "jsstring \<Rightarrow> jsstring" where
  "trim s = rev (dropWhile is_js_whitespace (rev (dropWhile is_js_whitespace s)))"

definition radix_digit :: "nat \<Rightarrow> 16 word \<Rightarrow> nat option" where
  "radix_digit radix u = (case hex_value u of None \<Rightarrow> None | Some d \<Rightarrow> if d < radix then Some d else None)"

definition radix_value :: "nat \<Rightarrow> jsstring \<Rightarrow> jsnumber" where
  "radix_value radix ds =
     (if ds = [] \<or> (\<exists>d \<in> set ds. radix_digit radix d = None) then NaN
      else Finite (of_nat (foldl (\<lambda>a d. radix * a + the (radix_digit radix d)) 0 ds)))"

text \<open>
  An unsigned decimal literal: digits with an optional fraction, or a fraction alone, and an
  optional exponent, up to the end of the text.
\<close>

definition unsigned_decimal :: "jsstring \<Rightarrow> rat option" where
  "unsigned_decimal s =
     (let ds = takeWhile is_digit s;
          r1 = dropWhile is_digit s;
          has_dot = (case r1 of [] \<Rightarrow> False | c # _ \<Rightarrow> c = 0x2E);
          fs = (if has_dot then takeWhile is_digit (tl r1) else []);
          r2 = (if has_dot then dropWhile is_digit (tl r1) else r1)
      in if ds = [] \<and> fs = [] then None
         else
           (case parse_exponent r2 of
              Some (e, []) \<Rightarrow>
                Some ((of_nat (digits_value ds) + of_nat (digits_value fs) / 10 ^ length fs) * pow10 e)
            | _ \<Rightarrow> None))"

text \<open>
  \<open>+x\<close> for \<open>x\<close> a string or \<open>undefined\<close>: \<open>undefined\<close> and a text that is no numeric literal
  give \<open>NaN\<close>, the empty text gives 0.
\<close>

definition to_number :: "jsstring option \<Rightarrow> jsnumber" where
  "to_number x =
     (case x of
        None \<Rightarrow> NaN
      | Some s \<Rightarrow>
          (let t = trim s in
           if t = [] then Finite 0
           else if take 2 t = str ''0x'' \<or> take 2 t = str ''0X'' then radix_value 16 (drop 2 t)
           else if take 2 t = str ''0o'' \<or> take 2 t = str ''0O'' then radix_value 8 (drop 2 t)
           else if take 2 t = str ''0b'' \<or> take 2 t = str ''0B'' then radix_value 2 (drop 2 t)
           else
             (let neg = (hd t = 0x2D);
                  u = (if hd t = 0x2B \<or> hd t = 0x2D then tl t else t)
              in if u = str ''Infinity'' then (if neg then NegInfinity else PosInfinity)
                 else
                   (case unsigned_decimal u of
                      None \<Rightarrow> NaN
                    | Some v \<Rightarrow> Finite (if neg then - v else v)))))"

section \<open>protocol.ts\<close>

definition TWO_CRLF :: jsstring where
  "TWO_CRLF = [0x0D, 0x0A, 0x0D, 0x0A]"

definition CONTENT_LENGTH_HEADER :: jsstring where
  "CONTENT_LENGTH_HEADER = str ''Content-Length''"

text \<open>
  \<open>encodeMessage\<close>: the header carries \<open>body.length\<close>, the number of UTF-16 code units of the
  JSON text.
\<close>

definition encodeMessage :: "json \<Rightarrow> jsstring" where
  "encodeMessage message =
     (let body = JSON_stringify message;
          header = CONTENT_LENGTH_HEADER @ str '': '' @ number_to_string (of_nat (length body))
      in header @ TWO_CRLF @ body)"


text \<open>
  Reading a property. The client reads \<open>type\<close>, \<open>seq\<close>, \<open>command\<close>, \<open>arguments\<close>,
  \<open>request_seq\<close>, \<open>success\<close>, \<open>message\<close>, \<open>event\<close> and \<open>body\<close>: an object has them or not,
  a number, boolean, string or array has none of them (the result is \<open>undefined\<close>), and reading
  a property of \<open>null\<close> raises a \<open>TypeError\<close>.
\<close>

definition get_prop :: "json \<Rightarrow> string \<Rightarrow> json option" where
  "get_prop v name = (case v of JObject kvs \<Rightarrow> map_of kvs (str name) | _ \<Rightarrow> None)"

definition is_number :: "json option \<Rightarrow> bool" where
  "is_number x = (case x of Some (JNumber q) \<Rightarrow> True | _ \<Rightarrow> False)"

definition is_boolean :: "json option \<Rightarrow> bool" where
  "is_boolean x = (case x of Some (JBool b) \<Rightarrow> True | _ \<Rightarrow> False)"

definition is_string :: "json option \<Rightarrow> bool" where
  "is_string x = (case x of Some (JString t) \<Rightarrow> True | _ \<Rightarrow> False)"

definition isRequest :: "json \<Rightarrow> js_error + bool" where
  "isRequest message =
     (if message = JNull then Inl (JsError TypeError [])
      else Inr (get_prop message ''type'' = Some (JString (str ''request''))
                \<and> is_string (get_prop message ''command'')
                \<and> is_number (get_prop message ''seq'')))"

definition isResponse :: "json \<Rightarrow> js_error + bool" where
  "isResponse message =
     (if message = JNull then Inl (JsError TypeError [])
      else Inr (get_prop message ''type'' = Some (JString (str ''response''))
                \<and> is_number (get_prop message ''request_seq'')
                \<and> is_boolean (get_prop message ''success'')))"

definition isEvent :: "json \<Rightarrow> js_error + bool" where
  "isEvent message =
     (if message = JNull then Inl (JsError TypeError [])
      else Inr (get_prop message ''type'' = Some (JString (str ''event''))
                \<and> is_string (get_prop message ''event'')
                \<and> is_number (get_prop message ''seq'')))"

section \<open>base-debug-client.ts\<close>

subsection \<open>Conversion to string\<close>

text \<open>
  What a template literal and \<open>new Error(x)\<close> make of a value: a string is itself, an array
  joins its elements with commas (\<open>null\<close> elements as the empty string), an object is
  \<open>[object Object]\<close>, a missing value is \<open>undefined\<close>.
\<close>

fun js_to_string :: "json \<Rightarrow> jsstring" where
  "js_to_string JNull = str ''null''"
| "js_to_string (JBool b) = (if b then str ''true'' else str ''false'')"
| "js_to_string (JNumber q) = number_to_string q"
| "js_to_string (JString t) = t"
| "js_to_string (JArray xs) = join (str '','') (map (\<lambda>x. if x = JNull then [] else js_to_string x) xs)"
| "js_to_string (JObject kvs) = str ''[object Object]''"

definition to_text :: "json option \<Rightarrow> jsstring" where
  "to_text x = (case x of None \<Rightarrow> str ''undefined'' | Some v \<Rightarrow> js_to_string v)"

definition quoted :: "jsstring \<Rightarrow> jsstring" where
  "quoted t = [0x27] @ t @ [0x27]"

definition new_Error :: "json option \<Rightarrow> js_error" where
  "new_Error x = JsError Error (case x of None \<Rightarrow> [] | Some v \<Rightarrow> js_to_string v)"

text \<open>An object literal; a property whose value is \<open>undefined\<close> leaves no trace in the JSON text.\<close>

definition object_literal :: "(string \<times> json option) list \<Rightarrow> json" where
  "object_literal fields =
     JObject (concat (map (\<lambda>(k, v). case v of None \<Rightarrow> [] | Some x \<Rightarrow> [(str k, x)]) fields))"

subsection \<open>State of a client\<close>

datatype LogLevel = Off | On | Verbose

text \<open>
  Application code is seen through what it does to the client: an event callback is called
  with the event body and returns or throws; a reverse request handler is called with the
  arguments and throws, or returns a promise that is fulfilled or rejected. Callbacks that
  call back into the client are outside the model.
\<close>

record listener =
  cb_id :: nat
  cb_throws :: "json option \<Rightarrow> js_error option"
  once :: bool

datatype handler_result = Throws js_error | Resolves "json option" | Rejects js_error

record handler =
  h_id :: nat
  h_run :: "json option \<Rightarrow> handler_result"

datatype promise = Pending | Fulfilled "json option" | Rejected js_error

datatype log_detail = DetailJson json | DetailError js_error

text \<open>
  The fields of \<open>BaseDebugClient\<close>, and what the client does to its surroundings:
  \<^item> \<open>pendingRequests\<close> maps a sequence number to the callback made by \<open>sendRequest\<close>, which
    settles one promise: the entry holds the index of that promise in \<open>promises\<close>;
  \<^item> \<open>logger_lines\<close> the lines given to \<open>config.logger\<close>;
  \<^item> \<open>calls\<close> the calls of application callbacks and handlers, with their argument;
  \<^item> \<open>in_flight\<close> the reverse requests whose handler has returned a promise, each with the
    outcome of that promise, for which the \<open>then\<close>/\<open>catch\<close> chain has yet to run;
  \<^item> \<open>handled\<close> the messages \<open>handleMessage\<close> was called with, in order.
\<close>

record base_debug_client =
  loggerName :: jsstring
  logLevel :: LogLevel
  nextSeq :: int
  pendingRequests :: "rat \<rightharpoonup> nat"
  reverseRequestHandlers :: "jsstring \<rightharpoonup> handler"
  eventEmitter :: "jsstring \<Rightarrow> listener list"
  promises :: "promise list"
  logger_lines :: "jsstring list"
  calls :: "(nat \<times> json option) list"
  in_flight :: "(json \<times> handler_result) list"
  handled :: "json list"

definition new_BaseDebugClient :: "jsstring \<Rightarrow> LogLevel \<Rightarrow> base_debug_client" where
  "new_BaseDebugClient name level =
     \<lparr> loggerName = name, logLevel = level, nextSeq = 1, pendingRequests = Map.empty,
       reverseRequestHandlers = Map.empty, eventEmitter = (\<lambda>_. []), promises = [],
       logger_lines = [], calls = [], in_flight = [], handled = [] \<rparr>"

definition getNextSeq :: "base_debug_client \<Rightarrow> int \<times> base_debug_client" where
  "getNextSeq b = (nextSeq b, b\<lparr>nextSeq := nextSeq b + 1\<rparr>)"

definition log_detail_message :: "LogLevel \<Rightarrow> log_detail option \<Rightarrow> jsstring option" where
  "log_detail_message level detail =
     (if level \<noteq> Verbose then None
      else case detail of
             None \<Rightarrow> None
           | Some (DetailJson (JString t)) \<Rightarrow> Some t
           | Some (DetailJson v) \<Rightarrow> Some (JSON_stringify_indent2 v)
           | Some (DetailError e) \<Rightarrow> Some (str ''{}''))"

definition log_msg :: "base_debug_client \<Rightarrow> jsstring \<Rightarrow> log_detail option \<Rightarrow> base_debug_client" where
  "log_msg b message detail =
     (if logLevel b = Off then b
      else
        (let detailMessage = log_detail_message (logLevel b) detail;
             line = str ''['' @ loggerName b @ str ''] '' @ message
                    @ (case detailMessage of
                         None \<Rightarrow> []
                       | Some d \<Rightarrow> if d = [] then [] else str '' '' @ d)
         in b\<lparr>logger_lines := logger_lines b @ [line]\<rparr>))"

definition detail_of :: "json option \<Rightarrow> log_detail option" where
  "detail_of x = map_option DetailJson x"

subsection \<open>Promises and the event emitter\<close>

text \<open>\<open>resolve\<close> and \<open>reject\<close> settle a pending promise and leave a settled one as it is.\<close>

definition settle :: "base_debug_client \<Rightarrow> nat \<Rightarrow> promise \<Rightarrow> base_debug_client" where
  "settle b p outcome =
     (if p < length (promises b) \<and> promises b ! p = Pending
      then b\<lparr>promises := (promises b)[p := outcome]\<rparr> else b)"

text \<open>
  \<open>emit\<close> calls the listeners registered for the name in the order of registration; a \<open>once\<close>
  listener is removed just before it is called; a listener that throws ends the delivery
  and the exception leaves \<open>emit\<close>. An \<open>error\<close> event without a listener throws.
\<close>

fun emit_listeners ::
  "base_debug_client \<Rightarrow> jsstring \<Rightarrow> json option \<Rightarrow> listener list \<Rightarrow> listener list
   \<Rightarrow> js_error option \<times> base_debug_client" where
  "emit_listeners b name arg kept [] = (None, b)"
| "emit_listeners b name arg kept (l # ls) =
     (let kept' = (if once l then kept else kept @ [l]);
          b1 = b\<lparr>eventEmitter := (eventEmitter b)(name := kept' @ ls),
                 calls := calls b @ [(cb_id l, arg)]\<rparr>
      in case cb_throws l arg of
           Some e \<Rightarrow> (Some e, b1)
         | None \<Rightarrow> emit_listeners b1 name arg kept' ls)"

definition emit :: "base_debug_client \<Rightarrow> jsstring \<Rightarrow> json option \<Rightarrow> js_error option \<times> base_debug_client" where
  "emit b name arg =
     (if name = str ''error'' \<and> eventEmitter b name = [] then (Some (JsError Error []), b)
      else emit_listeners b name arg [] (eventEmitter b name))"

subsection \<open>handleMessage\<close>

text \<open>The callback that \<open>sendRequest\<close> stores in \<open>pendingRequests\<close>, for the promise \<open>p\<close>.\<close>

definition pending_callback :: "base_debug_client \<Rightarrow> nat \<Rightarrow> json \<Rightarrow> base_debug_client" where
  "pending_callback b p response =
     (if get_prop response ''success'' = Some (JBool True) then
        settle
          (log_msg b (str ''received response for '' @ quoted (to_text (get_prop response ''command''))
                      @ str '' ('' @ to_text (get_prop response ''request_seq'') @ str '')'')
             (Some (DetailJson response)))
          p (Fulfilled (get_prop response ''body''))
      else
        settle
          (log_msg b (str ''received error response for '' @ quoted (to_text (get_prop response ''command''))
                      @ str '' ('' @ to_text (get_prop response ''request_seq'') @ str '')'')
             (Some (DetailJson response)))
          p (Rejected (new_Error (get_prop response ''message''))))"

definition the_number :: "json option \<Rightarrow> rat" where
  "the_number x = (case x of Some (JNumber q) \<Rightarrow> q | _ \<Rightarrow> 0)"

definition the_string :: "json option \<Rightarrow> jsstring" where
  "the_string x = (case x of Some (JString t) \<Rightarrow> t | _ \<Rightarrow> [])"

text \<open>The line logged for a response that matches no pending request.\<close>

definition unmatched_response_text :: "json \<Rightarrow> jsstring" where
  "unmatched_response_text message =
     str ''Received response '' @ quoted (to_text (get_prop message ''command''))
     @ str '' with request_seq not matching any request ''
     @ to_text (get_prop message ''request_seq'')"

definition handle_response :: "base_debug_client \<Rightarrow> json \<Rightarrow> js_error option \<times> base_debug_client" where
  "handle_response b message =
     (case pendingRequests b (the_number (get_prop message ''request_seq'')) of
        Some callback \<Rightarrow>
          (None,
           pending_callback
             (b\<lparr>pendingRequests := (pendingRequests b)(the_number (get_prop message ''request_seq'') := None)\<rparr>)
             callback message)
      | None \<Rightarrow> (None, log_msg b (unmatched_response_text message) (Some (DetailJson message))))"

definition handle_event :: "base_debug_client \<Rightarrow> json \<Rightarrow> js_error option \<times> base_debug_client" where
  "handle_event b message =
     emit
       (log_msg b (str ''Received event '' @ quoted (to_text (get_prop message ''event''))
                   @ str '' ('' @ to_text (get_prop message ''seq'') @ str '')'')
          (Some (DetailJson message)))
       (the_string (get_prop message ''event'')) (get_prop message ''body'')"

text \<open>The line logged for a request, up to the words about a missing handler.\<close>

definition received_request_text :: "json \<Rightarrow> jsstring" where
  "received_request_text message =
     str ''Received request '' @ quoted (to_text (get_prop message ''command''))
     @ str '' ('' @ to_text (get_prop message ''seq'') @ str '')''"

definition handle_request :: "base_debug_client \<Rightarrow> json \<Rightarrow> js_error option \<times> base_debug_client" where
  "handle_request b message =
     (case reverseRequestHandlers b (the_string (get_prop message ''command'')) of
        Some h \<Rightarrow>
          (let b1 = log_msg b (received_request_text message) (Some (DetailJson message));
               b2 = b1\<lparr>calls := calls b1 @ [(h_id h, get_prop message ''arguments'')]\<rparr>
           in case h_run h (get_prop message ''arguments'') of
                Throws e \<Rightarrow> (Some e, b2)
              | outcome \<Rightarrow> (None, b2\<lparr>in_flight := in_flight b2 @ [(message, outcome)]\<rparr>))
      | None \<Rightarrow>
          (None,
           log_msg b (received_request_text message @ str '' but no handler is registered'')
             (Some (DetailJson message))))"

definition handle_unknown :: "base_debug_client \<Rightarrow> json \<Rightarrow> js_error option \<times> base_debug_client" where
  "handle_unknown b message =
     (None,
      log_msg b (str ''Received message of unknown type '' @ quoted (to_text (get_prop message ''type'')))
        (Some (DetailJson message)))"

text \<open>
  \<open>handleMessage\<close>: the chain of \<open>if\<close> \<open>isResponse\<close>, \<open>else if\<close> \<open>isEvent\<close>, \<open>else if\<close>
  \<open>isRequest\<close>, \<open>else\<close>, each branch a definition above. An exception of a type guard or of
  a branch leaves \<open>handleMessage\<close>.
\<close>

definition handleMessage :: "base_debug_client \<Rightarrow> json \<Rightarrow> js_error option \<times> base_debug_client" where
  "handleMessage b0 message =
     (let b = b0\<lparr>handled := handled b0 @ [message]\<rparr> in
      case isResponse message of
        Inl e \<Rightarrow> (Some e, b)
      | Inr True \<Rightarrow> handle_response b message
      | Inr False \<Rightarrow>
          (case isEvent message of
             Inl e \<Rightarrow> (Some e, b)
           | Inr True \<Rightarrow> handle_event b message
           | Inr False \<Rightarrow>
               (case isRequest message of
                  Inl e \<Rightarrow> (Some e, b)
                | Inr True \<Rightarrow> handle_request b message
                | Inr False \<Rightarrow> handle_unknown b message)))"

text \<open>\<open>onReverseRequest\<close> and the \<open>unsubscribe\<close> of the object it returns.\<close>

definition onReverseRequest :: "base_debug_client \<Rightarrow> jsstring \<Rightarrow> handler \<Rightarrow> base_debug_client" where
  "onReverseRequest b command callback =
     b\<lparr>reverseRequestHandlers := (reverseRequestHandlers b)(command \<mapsto> callback)\<rparr>"

definition unsubscribe_reverse_request :: "base_debug_client \<Rightarrow> jsstring \<Rightarrow> handler \<Rightarrow> base_debug_client" where
  "unsubscribe_reverse_request b command callback =
     (if map_option h_id (reverseRequestHandlers b command) = Some (h_id callback)
      then b\<lparr>reverseRequestHandlers := (reverseRequestHandlers b)(command := None)\<rparr> else b)"


section \<open>stream-debug-client.ts\<close>

text \<open>
  A stream is known by a handle. \<open>written\<close> lists what has been written to which writable
  stream, in order: a string written to a stream is encoded as UTF-8.
\<close>

record stream_connection =
  inStream :: nat
  outStream :: nat

record stream_debug_client =
  base :: base_debug_client
  connection :: "stream_connection option"
  buffer :: buffer
  contentLength :: jsnumber
  written :: "(nat \<times> buffer) list"

definition new_StreamDebugClient :: "jsstring \<Rightarrow> LogLevel \<Rightarrow> stream_debug_client" where
  "new_StreamDebugClient name level =
     \<lparr> base = new_BaseDebugClient name level, connection = None, buffer = [],
       contentLength = Finite (- 1), written = [] \<rparr>"

definition not_connected :: js_error where
  "not_connected = JsError Error (str ''not connected'')"

definition connectAdapter :: "stream_debug_client \<Rightarrow> nat \<Rightarrow> nat \<Rightarrow> js_error option \<times> stream_debug_client" where
  "connectAdapter s readable writable =
     (case connection s of
        Some c \<Rightarrow> (Some (JsError Error (str ''already connected'')), s)
      | None \<Rightarrow> (None, s\<lparr>connection := Some \<lparr>inStream = readable, outStream = writable\<rparr>\<rparr>))"

definition disconnectAdapter :: "stream_debug_client \<Rightarrow> stream_debug_client" where
  "disconnectAdapter s =
     (case connection s of
        Some c \<Rightarrow>
          s\<lparr>base := log_msg (base s) (str ''Disconnecting'') None, connection := None,
            buffer := [], contentLength := Finite (- 1)\<rparr>
      | None \<Rightarrow> s)"

definition sendMessage :: "stream_debug_client \<Rightarrow> json \<Rightarrow> js_error option \<times> stream_debug_client" where
  "sendMessage s message =
     (case connection s of
        None \<Rightarrow> (Some not_connected, s)
      | Some c \<Rightarrow> (None, s\<lparr>written := written s @ [(outStream c, utf8_encode (encodeMessage message))]\<rparr>))"

subsection \<open>The sending methods of the base class\<close>

text \<open>
  \<open>sendMessage\<close> is abstract in \<open>BaseDebugClient\<close>; the methods that call it are given for a
  stream client. They are \<open>async\<close>: an exception inside one is the rejection of the promise
  it returns. \<open>sendRequest\<close> returns the promise it has stored the callback for.
\<close>

definition request_message :: "int \<Rightarrow> jsstring \<Rightarrow> json option \<Rightarrow> json" where
  "request_message seq command args =
     object_literal [(''seq'', Some (JNumber (of_int seq))), (''type'', Some (JString (str ''request''))),
                     (''command'', Some (JString command)), (''arguments'', args)]"

definition BaseDebugClient_sendRequest ::
  "stream_debug_client \<Rightarrow> jsstring \<Rightarrow> json option \<Rightarrow> (js_error + nat) \<times> stream_debug_client" where
  "BaseDebugClient_sendRequest s command args =
     (let (seq, b1) = getNextSeq (base s);
          request = request_message seq command args;
          b2 = log_msg b1 (str ''sending request '' @ quoted (to_text (get_prop request ''command''))
                           @ str '' ('' @ to_text (get_prop request ''seq'') @ str '')'')
                 (detail_of (get_prop request ''arguments''));
          p = length (promises b2);
          b3 = b2\<lparr>promises := promises b2 @ [Pending],
                  pendingRequests := (pendingRequests b2)(of_int seq \<mapsto> p)\<rparr>
      in case sendMessage (s\<lparr>base := b3\<rparr>) request of
           (Some e, s') \<Rightarrow> (Inl e, s')
         | (None, s') \<Rightarrow> (Inr p, s'))"

definition response_message :: "int \<Rightarrow> json \<Rightarrow> json option \<Rightarrow> json" where
  "response_message seq request responseBody =
     object_literal [(''type'', Some (JString (str ''response''))), (''seq'', Some (JNumber (of_int seq))),
                     (''command'', get_prop request ''command''),
                     (''request_seq'', get_prop request ''seq''),
                     (''success'', Some (JBool True)), (''body'', responseBody)]"

definition BaseDebugClient_sendResponse ::
  "stream_debug_client \<Rightarrow> json \<Rightarrow> json option \<Rightarrow> js_error option \<times> stream_debug_client" where
  "BaseDebugClient_sendResponse s request responseBody =
     (let (seq, b1) = getNextSeq (base s) in
      if request = JNull then (Some (JsError TypeError []), s\<lparr>base := b1\<rparr>)
      else
        (let response = response_message seq request responseBody;
             b2 = log_msg b1 (str ''sending response '' @ quoted (to_text (get_prop response ''command''))
                              @ str '' ('' @ to_text (get_prop response ''seq'') @ str '')'')
                    (detail_of (get_prop response ''body''))
         in sendMessage (s\<lparr>base := b2\<rparr>) response))"

definition error_response_message :: "int \<Rightarrow> json \<Rightarrow> jsstring \<Rightarrow> json option \<Rightarrow> json" where
  "error_response_message seq request message error =
     object_literal [(''type'', Some (JString (str ''response''))), (''seq'', Some (JNumber (of_int seq))),
                     (''command'', get_prop request ''command''),
                     (''request_seq'', get_prop request ''seq''),
                     (''success'', Some (JBool False)), (''message'', Some (JString message)),
                     (''body'', Some (object_literal [(''error'', error)]))]"

definition BaseDebugClient_sendErrorResponse ::
  "stream_debug_client \<Rightarrow> json \<Rightarrow> jsstring \<Rightarrow> json option \<Rightarrow> js_error option \<times> stream_debug_client" where
  "BaseDebugClient_sendErrorResponse s request message error =
     (let (seq, b1) = getNextSeq (base s) in
      if request = JNull then (Some (JsError TypeError []), s\<lparr>base := b1\<rparr>)
      else
        (let response = error_response_message seq request message error;
             b2 = log_msg b1 (str ''sending error response '' @ quoted (to_text (get_prop response ''command''))
                              @ str '' ('' @ to_text (get_prop response ''seq'') @ str '') ''
                              @ to_text (get_prop response ''message''))
                    (detail_of (get_prop response ''body''))
         in sendMessage (s\<lparr>base := b2\<rparr>) response))"

subsection \<open>The overrides of the stream client\<close>

definition sendRequest ::
  "stream_debug_client \<Rightarrow> jsstring \<Rightarrow> json option \<Rightarrow> (js_error + nat) \<times> stream_debug_client" where
  "sendRequest s command args =
     (if connection s = None then (Inl not_connected, s)
      else BaseDebugClient_sendRequest s command args)"

definition sendResponse ::
  "stream_debug_client \<Rightarrow> json \<Rightarrow> json option \<Rightarrow> js_error option \<times> stream_debug_client" where
  "sendResponse s request responseBody =
     (if connection s = None then (Some not_connected, s)
      else BaseDebugClient_sendResponse s request responseBody)"

text \<open>
  \<open>sendErrorResponse\<close> calls the method of the base class without returning or awaiting its
  promise: a rejection of that promise is not the caller's.
\<close>

definition sendErrorResponse ::
  "stream_debug_client \<Rightarrow> json \<Rightarrow> jsstring \<Rightarrow> json option \<Rightarrow> js_error option \<times> stream_debug_client" where
  "sendErrorResponse s request message error =
     (if connection s = None then (Some not_connected, s)
      else (None, snd (BaseDebugClient_sendErrorResponse s request message error)))"

text \<open>
  The chain \<open>handler(arguments).then(sendResponse).catch(sendErrorResponse)\<close> of
  \<open>handleMessage\<close>, run when the promise of the handler has settled: the \<open>catch\<close> also
  receives a failure of \<open>sendResponse\<close>. An error in the result is an unhandled rejection.
\<close>

definition settle_reverse_request ::
  "stream_debug_client \<Rightarrow> json \<Rightarrow> handler_result \<Rightarrow> js_error option \<times> stream_debug_client" where
  "settle_reverse_request s message outcome =
     (case outcome of
        Resolves success \<Rightarrow>
          (case sendResponse s message success of
             (None, s') \<Rightarrow> (None, s')
           | (Some error, s') \<Rightarrow> sendErrorResponse s' message (error_message error) None)
      | Rejects error \<Rightarrow> sendErrorResponse s message (error_message error) None
      | Throws error \<Rightarrow> (None, s))"

subsection \<open>handleData\<close>

text \<open>Comparison of numbers: every comparison with \<open>NaN\<close> is false.\<close>

fun js_ge :: "jsnumber \<Rightarrow> jsnumber \<Rightarrow> bool" where
  "js_ge NaN y = False"
| "js_ge x NaN = False"
| "js_ge PosInfinity y = True"
| "js_ge x NegInfinity = True"
| "js_ge NegInfinity y = False"
| "js_ge (Finite a) PosInfinity = False"
| "js_ge (Finite a) (Finite b) = (b \<le> a)"

text \<open>
  An offset given to \<open>toString\<close> and \<open>slice\<close> is truncated to an integer (the offsets here
  are not negative and not above the length of the buffer).
\<close>

definition offset_of :: "jsnumber \<Rightarrow> nat" where
  "offset_of x = (case x of Finite q \<Rightarrow> nat \<lfloor>q\<rfloor> | _ \<Rightarrow> 0)"

text \<open>\<open>Buffer.indexOf\<close>: the first position where the pattern starts, \<open>None\<close> for the result -1.\<close>

fun indexOf :: "buffer \<Rightarrow> buffer \<Rightarrow> nat option" where
  "indexOf [] pat = (if pat = [] then Some 0 else None)"
| "indexOf (b # bs) pat =
     (if take (length pat) (b # bs) = pat then Some 0 else map_option Suc (indexOf bs pat))"

text \<open>\<open>header.split("\r\n")\<close>.\<close>

fun split_crlf :: "jsstring \<Rightarrow> jsstring list" where
  "split_crlf [] = [[]]"
| "split_crlf [u] = [[u]]"
| "split_crlf (u # v # rest) =
     (if u = 0x0D \<and> v = 0x0A then [] # split_crlf rest
      else (case split_crlf (v # rest) of [] \<Rightarrow> [[u]] | p # ps \<Rightarrow> (u # p) # ps))"

text \<open>\<open>line.split(/: +/)\<close>: the separator is a colon and all the spaces after it, one at least.\<close>

function split_colon_spaces :: "jsstring \<Rightarrow> jsstring list" where
  "split_colon_spaces [] = [[]]"
| "split_colon_spaces (u # us) =
     (if u = 0x3A \<and> (case us of [] \<Rightarrow> False | v # _ \<Rightarrow> v = 0x20)
      then [] # split_colon_spaces (dropWhile (\<lambda>v. v = 0x20) us)
      else (case split_colon_spaces us of [] \<Rightarrow> [[u]] | p # ps \<Rightarrow> (u # p) # ps))"
  by pat_completeness auto
termination
  by (relation "measure length") (auto simp: le_imp_less_Suc length_dropWhile_le)

text \<open>An element of an array, \<open>undefined\<close> past its end.\<close>

definition element :: "'a list \<Rightarrow> nat \<Rightarrow> 'a option" where
  "element xs i = (if i < length xs then Some (xs ! i) else None)"

text \<open>The loop over the header lines: the last \<open>Content-Length\<close> line sets the length.\<close>

fun header_lines :: "jsnumber \<Rightarrow> jsstring list \<Rightarrow> jsnumber" where
  "header_lines cl [] = cl"
| "header_lines cl (line # lines) =
     (let pair = split_colon_spaces line
      in header_lines (if element pair 0 = Some CONTENT_LENGTH_HEADER then to_number (element pair 1) else cl)
           lines)"

text \<open>
  The \<open>try\<close> block and the \<open>catch\<close> block around the handling of one body. The \<open>catch\<close>
  block is the one place where \<open>log\<close> is given a thrown value as its detail: at the level
  \<open>Verbose\<close>, \<open>log\<close> serialises the detail with \<open>JSON.stringify\<close> before it calls the logger,
  and what \<open>JSON.stringify\<close> throws leaves \<open>log\<close> and the \<open>catch\<close> block with nothing logged.
  Everywhere else the detail is a JSON value or \<open>undefined\<close>, and \<open>log\<close> is \<open>log_msg\<close>.
\<close>

definition try_block :: "base_debug_client \<Rightarrow> jsstring \<Rightarrow> js_error option \<times> base_debug_client" where
  "try_block b body = (case JSON_parse body of Inl e \<Rightarrow> (Some e, b) | Inr message \<Rightarrow> handleMessage b message)"

definition catch_block :: "base_debug_client \<Rightarrow> jsstring \<Rightarrow> js_error \<Rightarrow> js_error option \<times> base_debug_client" where
  "catch_block b body e =
     (if logLevel b = Verbose \<and> isl (stringify_error e) then (Some (projl (stringify_error e)), b)
      else (None, log_msg b (str ''Error handling message '' @ quoted body) (Some (DetailError e))))"

definition handle_body :: "base_debug_client \<Rightarrow> jsstring \<Rightarrow> js_error option \<times> base_debug_client" where
  "handle_body b body =
     (if length body > 0 then
        (case try_block b body of
           (None, b') \<Rightarrow> (None, b')
         | (Some e, b') \<Rightarrow> catch_block b' body e)
      else (None, b))"

text \<open>
  The loop of \<open>handleData\<close>. An exception that is not caught ends the loop and leaves
  \<open>handleData\<close>; \<open>break\<close> returns the state.
\<close>

function handleData_loop :: "stream_debug_client \<Rightarrow> js_error option \<times> stream_debug_client" where
  "handleData_loop s =
     (if js_ge (contentLength s) (Finite 0) then
        (if js_ge (Finite (of_nat (length (buffer s)))) (contentLength s) then
           (let body = utf8_decode (take (offset_of (contentLength s)) (buffer s));
                s1 = s\<lparr>buffer := drop (offset_of (contentLength s)) (buffer s),
                       contentLength := Finite (- 1)\<rparr>
            in case handle_body (base s1) body of
                 (Some e, b') \<Rightarrow> (Some e, s1\<lparr>base := b'\<rparr>)
               | (None, b') \<Rightarrow> handleData_loop (s1\<lparr>base := b'\<rparr>))
         else (None, s))
      else
        (case indexOf (buffer s) (utf8_encode TWO_CRLF) of
           Some idx \<Rightarrow>
             (let header = utf8_decode (take idx (buffer s));
                  lines = split_crlf header
              in handleData_loop
                   (s\<lparr>contentLength := header_lines (contentLength s) lines,
                      buffer := drop (idx + length TWO_CRLF) (buffer s)\<rparr>))
         | None \<Rightarrow> (None, s)))"
  by pat_completeness auto
termination
  apply (relation "measure (\<lambda>s. 2 * length (buffer s) + (if js_ge (contentLength s) (Finite 0) then 1 else 0))")
    apply simp
   apply (simp add: TWO_CRLF_def)
  apply (case_tac "buffer s")
   apply (simp add: TWO_CRLF_def)
  apply (simp add: TWO_CRLF_def)
  apply (intro conjI impI; arith)
  done

definition handleData :: "stream_debug_client \<Rightarrow> buffer \<Rightarrow> js_error option \<times> stream_debug_client" where
  "handleData s data = handleData_loop (s\<lparr>buffer := buffer s @ data\<rparr>)"

text \<open>
  The chunks of the readable stream, given to \<open>handleData\<close> one after another. An exception
  that leaves \<open>handleData\<close> is not caught by the client: the chunks after it are not given.
\<close>

fun feed :: "stream_debug_client \<Rightarrow> buffer list \<Rightarrow> js_error option \<times> stream_debug_client" where
  "feed s [] = (None, s)"
| "feed s (chunk # chunks) =
     (case handleData s chunk of
        (Some e, s') \<Rightarrow> (Some e, s')
      | (None, s') \<Rightarrow> feed s' chunks)"


section \<open>Terms of the specification\<close>

datatype message_kind = Response | Event | Request | Unknown


text \<open>
  The classification as the specification words it: Response first, then Event, then
  Request, else Unknown. The test that a sequence number has to pass is a parameter:
  the specification asks for an integer (\<open>is_integer\<close>), the type guards of the source ask
  for a number (\<open>is_number\<close>).
\<close>

definition spec_kind :: "(json option \<Rightarrow> bool) \<Rightarrow> json \<Rightarrow> message_kind" where
  "spec_kind seq_ok message =
     (if get_prop message ''type'' = Some (JString (str ''response''))
         \<and> seq_ok (get_prop message ''request_seq'') \<and> is_boolean (get_prop message ''success'')
      then Response
      else if get_prop message ''type'' = Some (JString (str ''event''))
              \<and> is_string (get_prop message ''event'') \<and> seq_ok (get_prop message ''seq'')
      then Event
      else if get_prop message ''type'' = Some (JString (str ''request''))
              \<and> is_string (get_prop message ''command'') \<and> seq_ok (get_prop message ''seq'')
      then Request
      else Unknown)"

text \<open>
  A message as a peer that follows the protocol frames it: the header gives the number of
  bytes of the body.
\<close>

definition frame :: "buffer \<Rightarrow> buffer" where
  "frame body =
     utf8_encode (CONTENT_LENGTH_HEADER @ str '': '' @ number_to_string (of_nat (length body)) @ TWO_CRLF)
     @ body"

section \<open>Example clients and messages\<close>

definition connected_client :: stream_debug_client where
  "connected_client = snd (connectAdapter (new_StreamDebugClient (str ''client'') On) 0 1)"

text \<open>The request \<open>evaluate\<close> with the expression \<open>U+00E9\<close>, as \<open>sendRequest\<close> builds it first.\<close>

definition evaluate_request :: json where
  "evaluate_request =
     request_message 1 (str ''evaluate'') (Some (JObject [(str ''expression'', JString [0xE9])]))"

text \<open>A connected client that has sent one request and waits for its response.\<close>

definition pending_client :: stream_debug_client where
  "pending_client = snd (sendRequest connected_client (str ''initialize'') None)"

definition partial_client :: stream_debug_client where
  "partial_client = pending_client\<lparr>buffer := [0x7B], contentLength := Finite 2\<rparr>"





definition run_in_terminal_request :: json where
  "run_in_terminal_request =
     JObject [(str ''seq'', JNumber 7), (str ''type'', JString (str ''request'')),
              (str ''command'', JString (str ''runInTerminal'')),
              (str ''arguments'', JObject [(str ''cwd'', JString (str ''/''))])]"

definition terminal_handler :: handler where
  "terminal_handler = \<lparr> h_id = 0, h_run = (\<lambda>args. Resolves (Some (JObject [(str ''processId'', JNumber 123)]))) \<rparr>"

text \<open>A connected client with a handler registered for \<open>runInTerminal\<close>.\<close>

definition terminal_client :: stream_debug_client where
  "terminal_client =
     connected_client\<lparr>base := onReverseRequest (base connected_client) (str ''runInTerminal'') terminal_handler\<rparr>"

text \<open>
  A connected client with one subscriber to the event \<open>stopped\<close>, which throws; a \<open>stopped\<close>
  event; and a body that is no JSON text.
\<close>

definition throwing_listener :: listener where
  "throwing_listener = \<lparr> cb_id = 0, cb_throws = (\<lambda>body. Some (JsError Error (str ''boom''))), once = False \<rparr>"

definition listening_client :: stream_debug_client where
  "listening_client =
     connected_client\<lparr>base := (base connected_client)
       \<lparr>eventEmitter := (eventEmitter (base connected_client))(str ''stopped'' := [throwing_listener])\<rparr>\<rparr>"

definition stopped_event :: json where
  "stopped_event =
     JObject [(str ''seq'', JNumber 2), (str ''type'', JString (str ''event'')),
              (str ''event'', JString (str ''stopped''))]"

definition garbled_body :: buffer where
  "garbled_body = utf8_encode (str ''{oops'')"

text \<open>
  A connected client at the level \<open>Verbose\<close> with one subscriber to the event \<open>stopped\<close>,
  which throws an error that refers to itself.
\<close>

definition circular_listener :: listener where
  "circular_listener = \<lparr> cb_id = 0, cb_throws = (\<lambda>body. Some (CircularError (str ''boom''))), once = False \<rparr>"

definition verbose_client :: stream_debug_client where
  "verbose_client = snd (connectAdapter (new_StreamDebugClient (str ''client'') Verbose) 0 1)"

definition verbose_listening_client :: stream_debug_client where
  "verbose_listening_client =
     verbose_client\<lparr>base := (base verbose_client)
       \<lparr>eventEmitter := (eventEmitter (base verbose_client))(str ''stopped'' := [circular_listener])\<rparr>\<rparr>"

definition failing_handler :: handler where
  "failing_handler = \<lparr> h_id = 1, h_run = (\<lambda>args. Rejects (JsError Error (str ''no terminal''))) \<rparr>"


section \<open>Properties\<close>

subsection \<open>Auxiliary facts\<close>

lemma str_simps: "str [] = []" "str (c # cs) = of_nat (of_char c) # str cs"
  by (simp_all add: str_def)

lemma log_msg_fields [simp]:
  "nextSeq (log_msg b t d) = nextSeq b"
  "pendingRequests (log_msg b t d) = pendingRequests b"
  "promises (log_msg b t d) = promises b"
  "reverseRequestHandlers (log_msg b t d) = reverseRequestHandlers b"
  "eventEmitter (log_msg b t d) = eventEmitter b"
  "calls (log_msg b t d) = calls b"
  "in_flight (log_msg b t d) = in_flight b"
  "handled (log_msg b t d) = handled b"
  "logLevel (log_msg b t d) = logLevel b"
  "loggerName (log_msg b t d) = loggerName b"
  by (simp_all add: log_msg_def Let_def)

lemma connected_client_connection:
  "connection connected_client = Some \<lparr>inStream = 0, outStream = 1\<rparr>"
  by (simp add: connected_client_def connectAdapter_def new_StreamDebugClient_def)

lemma pending_client_fields:
  "connection pending_client = Some \<lparr>inStream = 0, outStream = 1\<rparr>"
  "nextSeq (base pending_client) = 2"
  "pendingRequests (base pending_client) = [1 \<mapsto> 0]"
  "promises (base pending_client) = [Pending]"
  by (simp_all add: pending_client_def sendRequest_def BaseDebugClient_sendRequest_def
      connected_client_connection getNextSeq_def sendMessage_def Let_def
      connected_client_def connectAdapter_def new_StreamDebugClient_def new_BaseDebugClient_def)

subsection \<open>Sending without a connection\<close>

text \<open>
  C6. When no connection is established, \<open>sendRequest\<close>, \<open>sendResponse\<close>,
  \<open>sendErrorResponse\<close> and \<open>sendMessage\<close> each fail with the error \<open>not connected\<close> and
  leave the whole client as it was: nothing is written to a stream, no sequence number is
  taken and no pending request is registered.
\<close>

theorem not_connected_sends_fail:
  "connection s = None \<Longrightarrow>
     sendRequest s command args = (Inl (JsError Error (str ''not connected'')), s)
   \<and> sendResponse s request responseBody = (Some (JsError Error (str ''not connected'')), s)
   \<and> sendErrorResponse s request message error = (Some (JsError Error (str ''not connected'')), s)
   \<and> sendMessage s msg = (Some (JsError Error (str ''not connected'')), s)"
  by (simp add: sendRequest_def sendResponse_def sendErrorResponse_def sendMessage_def not_connected_def)

theorem not_connected_sends_fail_witness:
  "connection (new_StreamDebugClient (str ''client'') On) = None
   \<and> sendRequest (new_StreamDebugClient (str ''client'') On) (str ''initialize'') None
       = (Inl (JsError Error (str ''not connected'')), new_StreamDebugClient (str ''client'') On)
   \<and> sendResponse (new_StreamDebugClient (str ''client'') On) run_in_terminal_request None
       = (Some (JsError Error (str ''not connected'')), new_StreamDebugClient (str ''client'') On)
   \<and> sendErrorResponse (new_StreamDebugClient (str ''client'') On) run_in_terminal_request (str ''bad'') None
       = (Some (JsError Error (str ''not connected'')), new_StreamDebugClient (str ''client'') On)
   \<and> sendMessage (new_StreamDebugClient (str ''client'') On) run_in_terminal_request
       = (Some (JsError Error (str ''not connected'')), new_StreamDebugClient (str ''client'') On)"
proof -
  have c: "connection (new_StreamDebugClient (str ''client'') On) = None"
    by (simp add: new_StreamDebugClient_def)
  show ?thesis
    using c not_connected_sends_fail [OF c, of "str ''initialize''" None run_in_terminal_request None
        "str ''bad''" None run_in_terminal_request]
    by simp
qed

subsection \<open>Disconnecting\<close>

text \<open>
  C8, as amended. \<open>disconnectAdapter\<close> on a connected client empties the byte buffer, sets
  the expected content length back to -1 and drops the connection; the pending requests,
  their promises and the sequence counter are what they were before.
\<close>

theorem disconnectAdapter_resets_decode_state:
  "connection s \<noteq> None \<Longrightarrow>
     buffer (disconnectAdapter s) = [] \<and> contentLength (disconnectAdapter s) = Finite (- 1)
   \<and> connection (disconnectAdapter s) = None
   \<and> pendingRequests (base (disconnectAdapter s)) = pendingRequests (base s)
   \<and> nextSeq (base (disconnectAdapter s)) = nextSeq (base s)
   \<and> promises (base (disconnectAdapter s)) = promises (base s)"
  by (auto simp: disconnectAdapter_def)

theorem disconnectAdapter_resets_decode_state_witness:
  "connection partial_client \<noteq> None \<and> buffer partial_client = [0x7B]
   \<and> buffer (disconnectAdapter partial_client) = []
   \<and> contentLength (disconnectAdapter partial_client) = Finite (- 1)
   \<and> connection (disconnectAdapter partial_client) = None
   \<and> pendingRequests (base (disconnectAdapter partial_client)) = [1 \<mapsto> 0]
   \<and> nextSeq (base (disconnectAdapter partial_client)) = 2
   \<and> promises (base (disconnectAdapter partial_client)) = [Pending]"
proof -
  have c: "connection partial_client \<noteq> None"
    by (simp add: partial_client_def pending_client_fields)
  show ?thesis
    using c disconnectAdapter_resets_decode_state [OF c]
    by (simp add: partial_client_def pending_client_fields)
qed

text \<open>
  The claim as it was stated fails for a client that has sent one request: after
  \<open>disconnectAdapter\<close> the request is still pending and the next sequence number is 2.
\<close>

theorem disconnectAdapter_keeps_requests_counterexample:
  "\<not> (buffer (disconnectAdapter pending_client) = []
      \<and> contentLength (disconnectAdapter pending_client) = Finite (- 1)
      \<and> pendingRequests (base (disconnectAdapter pending_client)) = Map.empty
      \<and> nextSeq (base (disconnectAdapter pending_client)) = 1)"
  by (simp add: disconnectAdapter_def pending_client_fields)

subsection \<open>Classification of a message\<close>

lemma type_guards_not_null:
  "message \<noteq> JNull \<Longrightarrow>
     isResponse message = Inr (spec_kind is_number message = Response)"
  "message \<noteq> JNull \<Longrightarrow> spec_kind is_number message \<noteq> Response \<Longrightarrow>
     isEvent message = Inr (spec_kind is_number message = Event)"
  "message \<noteq> JNull \<Longrightarrow> spec_kind is_number message \<noteq> Response \<Longrightarrow>
     spec_kind is_number message \<noteq> Event \<Longrightarrow>
     isRequest message = Inr (spec_kind is_number message = Request)"
  by (auto simp: isResponse_def isEvent_def isRequest_def spec_kind_def split: if_splits)







subsection \<open>Requests and their responses\<close>

lemma settle_fields [simp]:
  "nextSeq (settle b p x) = nextSeq b"
  "pendingRequests (settle b p x) = pendingRequests b"
  "reverseRequestHandlers (settle b p x) = reverseRequestHandlers b"
  "calls (settle b p x) = calls b"
  "in_flight (settle b p x) = in_flight b"
  "handled (settle b p x) = handled b"
  by (simp_all add: settle_def)














subsection \<open>Reverse requests\<close>

lemma name_neq [simp]:
  "str ''type'' \<noteq> str ''seq''" "str ''type'' \<noteq> str ''command''" "str ''type'' \<noteq> str ''request_seq''"
  "str ''type'' \<noteq> str ''success''" "str ''type'' \<noteq> str ''body''" "str ''type'' \<noteq> str ''message''"
  "str ''seq'' \<noteq> str ''command''" "str ''seq'' \<noteq> str ''request_seq''" "str ''seq'' \<noteq> str ''success''"
  "str ''seq'' \<noteq> str ''body''" "str ''seq'' \<noteq> str ''message''"
  "str ''command'' \<noteq> str ''request_seq''" "str ''command'' \<noteq> str ''success''"
  "str ''command'' \<noteq> str ''body''" "str ''command'' \<noteq> str ''message''"
  "str ''request_seq'' \<noteq> str ''success''" "str ''request_seq'' \<noteq> str ''body''"
  "str ''request_seq'' \<noteq> str ''message''"
  "str ''success'' \<noteq> str ''body''" "str ''success'' \<noteq> str ''message''"
  "str ''message'' \<noteq> str ''body''"
  by (simp_all add: str_simps)

lemma response_message_fields:
  "get_prop (response_message n request v) ''type'' = Some (JString (str ''response''))"
  "get_prop (response_message n request v) ''seq'' = Some (JNumber (of_int n))"
  "get_prop (response_message n request v) ''command'' = get_prop request ''command''"
  "get_prop (response_message n request v) ''request_seq'' = get_prop request ''seq''"
  "get_prop (response_message n request v) ''success'' = Some (JBool True)"
  "get_prop (response_message n request v) ''body'' = v"
  by (auto simp: response_message_def object_literal_def get_prop_def name_neq [symmetric]
      split: option.splits)

lemma error_response_message_fields:
  "get_prop (error_response_message n request t e) ''type'' = Some (JString (str ''response''))"
  "get_prop (error_response_message n request t e) ''seq'' = Some (JNumber (of_int n))"
  "get_prop (error_response_message n request t e) ''command'' = get_prop request ''command''"
  "get_prop (error_response_message n request t e) ''request_seq'' = get_prop request ''seq''"
  "get_prop (error_response_message n request t e) ''success'' = Some (JBool False)"
  "get_prop (error_response_message n request t e) ''message'' = Some (JString t)"
  by (auto simp: error_response_message_def object_literal_def get_prop_def name_neq [symmetric]
      split: option.splits)

lemma handleMessage_request:
  "spec_kind is_number m = Request \<Longrightarrow>
     handleMessage b m = handle_request (b\<lparr>handled := handled b @ [m]\<rparr>) m"
proof -
  assume k: "spec_kind is_number m = Request"
  then have n: "m \<noteq> JNull" by (auto simp: spec_kind_def get_prop_def split: if_splits)
  from k n show ?thesis by (simp add: handleMessage_def Let_def type_guards_not_null)
qed

lemma sendResponse_connected:
  "connection s = Some c \<Longrightarrow> request \<noteq> JNull \<Longrightarrow>
     sendResponse s request v =
       (None,
        s\<lparr>base := log_msg ((base s)\<lparr>nextSeq := nextSeq (base s) + 1\<rparr>)
                    (str ''sending response '' @ quoted (to_text (get_prop request ''command''))
                     @ str '' ('' @ number_to_string (of_int (nextSeq (base s))) @ str '')'')
                    (detail_of v),
          written := written s
            @ [(outStream c, utf8_encode (encodeMessage (response_message (nextSeq (base s)) request v)))]\<rparr>)"
  by (simp add: sendResponse_def BaseDebugClient_sendResponse_def getNextSeq_def sendMessage_def
      Let_def response_message_fields to_text_def)

lemma sendErrorResponse_connected:
  "connection s = Some c \<Longrightarrow> request \<noteq> JNull \<Longrightarrow>
     sendErrorResponse s request t e =
       (None,
        s\<lparr>base := log_msg ((base s)\<lparr>nextSeq := nextSeq (base s) + 1\<rparr>)
                    (str ''sending error response '' @ quoted (to_text (get_prop request ''command''))
                     @ str '' ('' @ number_to_string (of_int (nextSeq (base s))) @ str '') '' @ t)
                    (Some (DetailJson (object_literal [(''error'', e)]))),
          written := written s
            @ [(outStream c, utf8_encode (encodeMessage (error_response_message (nextSeq (base s)) request t e)))]\<rparr>)"
  apply (simp add: sendErrorResponse_def BaseDebugClient_sendErrorResponse_def getNextSeq_def sendMessage_def
      Let_def error_response_message_fields to_text_def detail_of_def)
  apply (simp add: error_response_message_def object_literal_def get_prop_def name_neq [symmetric] split: option.splits)
  done


text \<open>
  C7. For an inbound Request whose command has a registered handler, \<open>handleMessage\<close> calls
  the handler with the \<open>arguments\<close> of the request, raises no exception and leaves the chain
  on the promise of the handler in flight. When that promise is fulfilled and the client is
  connected, the chain writes exactly one message: the success Response with the next
  sequence number, the \<open>seq\<close> of the request as \<open>request_seq\<close>, its \<open>command\<close>, and the
  result of the handler as \<open>body\<close>. When the promise is rejected, the chain writes exactly
  one message: the Response with \<open>success\<close> false and the message of the error as
  \<open>message\<close>. Without a handler for the command, \<open>handleMessage\<close> only logs: no exception, no
  chain in flight, nothing to write.
\<close>

theorem reverse_request_round_trip:
  "spec_kind is_number request = Request \<longrightarrow>
     (reverseRequestHandlers b (the_string (get_prop request ''command'')) = Some h
      \<and> (h_run h (get_prop request ''arguments'') = Resolves result
          \<or> h_run h (get_prop request ''arguments'') = Rejects failure) \<longrightarrow>
        fst (handleMessage b request) = None
        \<and> calls (snd (handleMessage b request)) = calls b @ [(h_id h, get_prop request ''arguments'')]
        \<and> in_flight (snd (handleMessage b request))
            = in_flight b @ [(request, h_run h (get_prop request ''arguments''))])
   \<and> (reverseRequestHandlers b (the_string (get_prop request ''command'')) = None \<longrightarrow>
        handleMessage b request =
          (None,
           log_msg (b\<lparr>handled := handled b @ [request]\<rparr>)
             (received_request_text request @ str '' but no handler is registered'')
             (Some (DetailJson request))))
   \<and> (connection s = Some c \<longrightarrow>
        fst (settle_reverse_request s request (Resolves result)) = None
        \<and> written (snd (settle_reverse_request s request (Resolves result)))
            = written s
              @ [(outStream c,
                  utf8_encode (encodeMessage (response_message (nextSeq (base s)) request result)))]
        \<and> nextSeq (base (snd (settle_reverse_request s request (Resolves result)))) = nextSeq (base s) + 1
        \<and> get_prop (response_message (nextSeq (base s)) request result) ''seq''
            = Some (JNumber (of_int (nextSeq (base s))))
        \<and> get_prop (response_message (nextSeq (base s)) request result) ''request_seq''
            = get_prop request ''seq''
        \<and> get_prop (response_message (nextSeq (base s)) request result) ''command''
            = get_prop request ''command''
        \<and> get_prop (response_message (nextSeq (base s)) request result) ''success'' = Some (JBool True)
        \<and> get_prop (response_message (nextSeq (base s)) request result) ''body'' = result
        \<and> fst (settle_reverse_request s request (Rejects failure)) = None
        \<and> written (snd (settle_reverse_request s request (Rejects failure)))
            = written s
              @ [(outStream c,
                  utf8_encode (encodeMessage
                    (error_response_message (nextSeq (base s)) request (error_message failure) None)))]
        \<and> nextSeq (base (snd (settle_reverse_request s request (Rejects failure)))) = nextSeq (base s) + 1
        \<and> get_prop (error_response_message (nextSeq (base s)) request (error_message failure) None) ''seq''
            = Some (JNumber (of_int (nextSeq (base s))))
        \<and> get_prop (error_response_message (nextSeq (base s)) request (error_message failure) None) ''request_seq''
            = get_prop request ''seq''
        \<and> get_prop (error_response_message (nextSeq (base s)) request (error_message failure) None) ''command''
            = get_prop request ''command''
        \<and> get_prop (error_response_message (nextSeq (base s)) request (error_message failure) None) ''success''
            = Some (JBool False)
        \<and> get_prop (error_response_message (nextSeq (base s)) request (error_message failure) None) ''message''
            = Some (JString (error_message failure)))"
proof (intro impI)
  assume k: "spec_kind is_number request = Request"
  then have nn: "request \<noteq> JNull" by (auto simp: spec_kind_def get_prop_def split: if_splits)
  have dispatch:
    "fst (handleMessage b request) = None
     \<and> calls (snd (handleMessage b request)) = calls b @ [(h_id h, get_prop request ''arguments'')]
     \<and> in_flight (snd (handleMessage b request))
         = in_flight b @ [(request, h_run h (get_prop request ''arguments''))]"
    if "reverseRequestHandlers b (the_string (get_prop request ''command'')) = Some h
      \<and> (h_run h (get_prop request ''arguments'') = Resolves result
          \<or> h_run h (get_prop request ''arguments'') = Rejects failure)"
    using that by (auto simp: handleMessage_request [OF k] handle_request_def Let_def)
  have missing:
    "handleMessage b request =
       (None,
        log_msg (b\<lparr>handled := handled b @ [request]\<rparr>)
          (received_request_text request @ str '' but no handler is registered'')
          (Some (DetailJson request)))"
    if "reverseRequestHandlers b (the_string (get_prop request ''command'')) = None"
    using that by (simp add: handleMessage_request [OF k] handle_request_def)
  have settle_ok:
    "fst (settle_reverse_request s request (Resolves result)) = None
     \<and> written (snd (settle_reverse_request s request (Resolves result)))
         = written s
           @ [(outStream c,
               utf8_encode (encodeMessage (response_message (nextSeq (base s)) request result)))]
     \<and> nextSeq (base (snd (settle_reverse_request s request (Resolves result)))) = nextSeq (base s) + 1
     \<and> fst (settle_reverse_request s request (Rejects failure)) = None
     \<and> written (snd (settle_reverse_request s request (Rejects failure)))
         = written s
           @ [(outStream c,
               utf8_encode (encodeMessage
                 (error_response_message (nextSeq (base s)) request (error_message failure) None)))]
     \<and> nextSeq (base (snd (settle_reverse_request s request (Rejects failure)))) = nextSeq (base s) + 1"
    if "connection s = Some c"
    using that nn
    by (simp add: settle_reverse_request_def sendResponse_connected sendErrorResponse_connected)
  show "(reverseRequestHandlers b (the_string (get_prop request ''command'')) = Some h
      \<and> (h_run h (get_prop request ''arguments'') = Resolves result
          \<or> h_run h (get_prop request ''arguments'') = Rejects failure) \<longrightarrow>
        fst (handleMessage b request) = None
        \<and> calls (snd (handleMessage b request)) = calls b @ [(h_id h, get_prop request ''arguments'')]
        \<and> in_flight (snd (handleMessage b request))
            = in_flight b @ [(request, h_run h (get_prop request ''arguments''))])
   \<and> (reverseRequestHandlers b (the_string (get_prop request ''command'')) = None \<longrightarrow>
        handleMessage b request =
          (None,
           log_msg (b\<lparr>handled := handled b @ [request]\<rparr>)
             (received_request_text request @ str '' but no handler is registered'')
             (Some (DetailJson request))))
   \<and> (connection s = Some c \<longrightarrow>
        fst (settle_reverse_request s request (Resolves result)) = None
        \<and> written (snd (settle_reverse_request s request (Resolves result)))
            = written s
              @ [(outStream c,
                  utf8_encode (encodeMessage (response_message (nextSeq (base s)) request result)))]
        \<and> nextSeq (base (snd (settle_reverse_request s request (Resolves result)))) = nextSeq (base s) + 1
        \<and> get_prop (response_message (nextSeq (base s)) request result) ''seq''
            = Some (JNumber (of_int (nextSeq (base s))))
        \<and> get_prop (response_message (nextSeq (base s)) request result) ''request_seq''
            = get_prop request ''seq''
        \<and> get_prop (response_message (nextSeq (base s)) request result) ''command''
            = get_prop request ''command''
        \<and> get_prop (response_message (nextSeq (base s)) request result) ''success'' = Some (JBool True)
        \<and> get_prop (response_message (nextSeq (base s)) request result) ''body'' = result
        \<and> fst (settle_reverse_request s request (Rejects failure)) = None
        \<and> written (snd (settle_reverse_request s request (Rejects failure)))
            = written s
              @ [(outStream c,
                  utf8_encode (encodeMessage
                    (error_response_message (nextSeq (base s)) request (error_message failure) None)))]
        \<and> nextSeq (base (snd (settle_reverse_request s request (Rejects failure)))) = nextSeq (base s) + 1
        \<and> get_prop (error_response_message (nextSeq (base s)) request (error_message failure) None) ''seq''
            = Some (JNumber (of_int (nextSeq (base s))))
        \<and> get_prop (error_response_message (nextSeq (base s)) request (error_message failure) None) ''request_seq''
            = get_prop request ''seq''
        \<and> get_prop (error_response_message (nextSeq (base s)) request (error_message failure) None) ''command''
            = get_prop request ''command''
        \<and> get_prop (error_response_message (nextSeq (base s)) request (error_message failure) None) ''success''
            = Some (JBool False)
        \<and> get_prop (error_response_message (nextSeq (base s)) request (error_message failure) None) ''message''
            = Some (JString (error_message failure)))"
    using dispatch missing settle_ok
    by (simp add: response_message_fields error_response_message_fields)
qed

lemma run_in_terminal_request_fields:
  "spec_kind is_number run_in_terminal_request = Request"
  "get_prop run_in_terminal_request ''command'' = Some (JString (str ''runInTerminal''))"
  "get_prop run_in_terminal_request ''seq'' = Some (JNumber 7)"
  "get_prop run_in_terminal_request ''arguments'' = Some (JObject [(str ''cwd'', JString (str ''/''))])"
  by (simp_all add: run_in_terminal_request_def spec_kind_def get_prop_def is_number_def
      is_string_def is_boolean_def str_simps)

lemma terminal_client_fields:
  "connection terminal_client = Some \<lparr>inStream = 0, outStream = 1\<rparr>"
  "reverseRequestHandlers (base terminal_client) (str ''runInTerminal'') = Some terminal_handler"
  "written terminal_client = []"
  "nextSeq (base terminal_client) = 1"
  "in_flight (base terminal_client) = []"
  "calls (base terminal_client) = []"
  by (simp_all add: terminal_client_def onReverseRequest_def connected_client_def connectAdapter_def
       new_StreamDebugClient_def new_BaseDebugClient_def)

theorem reverse_request_round_trip_witness:
  "spec_kind is_number run_in_terminal_request = Request
   \<and> reverseRequestHandlers (base terminal_client) (str ''runInTerminal'') = Some terminal_handler
   \<and> fst (handleMessage (base terminal_client) run_in_terminal_request) = None
   \<and> calls (snd (handleMessage (base terminal_client) run_in_terminal_request))
       = [(0, Some (JObject [(str ''cwd'', JString (str ''/''))]))]
   \<and> in_flight (snd (handleMessage (base terminal_client) run_in_terminal_request))
       = [(run_in_terminal_request, Resolves (Some (JObject [(str ''processId'', JNumber 123)])))]
   \<and> written (snd (settle_reverse_request terminal_client run_in_terminal_request
                     (Resolves (Some (JObject [(str ''processId'', JNumber 123)])))))
       = [(1, utf8_encode (encodeMessage
                (response_message 1 run_in_terminal_request
                   (Some (JObject [(str ''processId'', JNumber 123)])))))]
   \<and> get_prop (response_message 1 run_in_terminal_request
                 (Some (JObject [(str ''processId'', JNumber 123)]))) ''request_seq''
       = Some (JNumber 7)
   \<and> get_prop (response_message 1 run_in_terminal_request
                 (Some (JObject [(str ''processId'', JNumber 123)]))) ''body''
       = Some (JObject [(str ''processId'', JNumber 123)])"
  using reverse_request_round_trip [of run_in_terminal_request "base terminal_client" terminal_handler
      "Some (JObject [(str ''processId'', JNumber 123)])" "JsError Error []" terminal_client
      "\<lparr>inStream = 0, outStream = 1\<rparr>"]
  by (simp add: run_in_terminal_request_fields terminal_client_fields the_string_def
      terminal_handler_def)



subsection \<open>The decoding loop and the chunks it is given\<close>

declare handleData_loop.simps [simp del]

declare nat_digits.simps [simp del]

text \<open>Nothing in the handling of a body changes the log level.\<close>

lemma settle_logLevel: "logLevel (settle b p outcome) = logLevel b"
  by (simp add: settle_def)

lemma emit_listeners_logLevel: "logLevel (snd (emit_listeners b name arg kept ls)) = logLevel b"
  by (induction ls arbitrary: b kept) (simp_all add: Let_def split: option.splits)

lemma handleMessage_logLevel: "logLevel (snd (handleMessage b message)) = logLevel b"
  by (simp add: handleMessage_def handle_response_def pending_callback_def settle_logLevel
      handle_event_def emit_def emit_listeners_logLevel handle_request_def handle_unknown_def Let_def
      split: sum.splits bool.splits option.splits handler_result.splits)

lemma try_block_logLevel:
  assumes t: "try_block b body = (x, b')"
  shows "logLevel b' = logLevel b"
proof (cases "JSON_parse body")
  case (Inl e)
  with t show ?thesis by (simp add: try_block_def)
next
  case (Inr m)
  with t have "handleMessage b m = (x, b')" by (simp add: try_block_def)
  with handleMessage_logLevel [of b m] show ?thesis by simp
qed

lemma handle_body_logLevel: "logLevel (snd (handle_body b body)) = logLevel b"
  by (auto simp: handle_body_def catch_block_def split: prod.splits option.splits
      dest: try_block_logLevel)

text \<open>
  What the \<open>try\<close> block throws is caught, and the \<open>catch\<close> block itself throws at the level
  \<open>Verbose\<close> only.
\<close>

lemma handle_body_no_throw: "logLevel b \<noteq> Verbose \<Longrightarrow> fst (handle_body b body) = None"
  by (auto simp: handle_body_def catch_block_def split: prod.splits option.splits
      dest: try_block_logLevel)

lemma handle_body_None: "logLevel b \<noteq> Verbose \<Longrightarrow> handle_body b body = (None, snd (handle_body b body))"
  using handle_body_no_throw [of b body] by (cases "handle_body b body") simp

lemma js_ge_window:
  "js_ge x (Finite 0) \<Longrightarrow> js_ge (Finite (of_nat n)) x \<Longrightarrow> \<exists>q. x = Finite q \<and> 0 \<le> q \<and> q \<le> of_nat n"
  by (cases x) simp_all

lemma offset_le: "0 \<le> q \<Longrightarrow> q \<le> of_nat n \<Longrightarrow> nat \<lfloor>q :: rat\<rfloor> \<le> n"
  by (metis floor_mono floor_of_nat nat_int nat_mono)

lemma take_short_append: "n \<le> length xs \<Longrightarrow> take n (xs @ ys) = take n xs"
  by simp

lemma indexOf_Some_bound: "indexOf buf pat = Some i \<Longrightarrow> i + length pat \<le> length buf"
proof (induction buf arbitrary: i)
  case Nil
  then show ?case by (simp split: if_splits)
next
  case (Cons b bs)
  show ?case
  proof (cases "take (length pat) (b # bs) = pat")
    case True
    then have "length (take (length pat) (b # bs)) = length pat" by simp
    then have "length pat \<le> length (b # bs)" by simp
    with True Cons.prems show ?thesis by simp
  next
    case False
    with Cons.prems obtain j where "indexOf bs pat = Some j" "i = Suc j" by auto
    with Cons.IH [of j] show ?thesis by simp
  qed
qed

lemma indexOf_append: "indexOf buf pat = Some i \<Longrightarrow> indexOf (buf @ d) pat = Some i"
proof (induction buf arbitrary: i)
  case Nil
  then show ?case by (cases d) (simp_all split: if_splits)
next
  case (Cons b bs)
  show ?case
  proof (cases "take (length pat) (b # bs) = pat")
    case True
    then have "length (take (length pat) (b # bs)) = length pat" by simp
    then have "length pat \<le> length (b # bs)" by simp
    then have "take (length pat) ((b # bs) @ d) = take (length pat) (b # bs)" by (rule take_short_append)
    with True Cons.prems show ?thesis by simp
  next
    case False
    with Cons.prems obtain j where j: "indexOf bs pat = Some j" "i = Suc j" by auto
    from indexOf_Some_bound [OF j(1)] have "length pat \<le> length (b # bs)" by simp
    then have "take (length pat) ((b # bs) @ d) = take (length pat) (b # bs)" by (rule take_short_append)
    with False have "take (length pat) ((b # bs) @ d) \<noteq> pat" by simp
    with Cons.IH [OF j(1)] j(2) show ?thesis by simp
  qed
qed

lemma loop_returns_below_verbose: "logLevel (base s) \<noteq> Verbose \<Longrightarrow> fst (handleData_loop s) = None"
proof (induction s rule: handleData_loop.induct)
  case (1 s)
  note lv = \<open>logLevel (base s) \<noteq> Verbose\<close>
  show ?case
  proof (cases "js_ge (contentLength s) (Finite 0)")
    case True
    show ?thesis
    proof (cases "js_ge (Finite (of_nat (length (buffer s)))) (contentLength s)")
      case ge: True
      define s1 where "s1 = s\<lparr>buffer := drop (offset_of (contentLength s)) (buffer s),
                       contentLength := Finite (- 1)\<rparr>"
      define body where "body = utf8_decode (take (offset_of (contentLength s)) (buffer s))"
      define b' where "b' = snd (handle_body (base s1) body)"
      have lv1: "logLevel (base s1) \<noteq> Verbose" using lv by (simp add: s1_def)
      have hb: "handle_body (base s1) body = (None, b')"
        unfolding b'_def by (rule handle_body_None [OF lv1])
      have lv2: "logLevel (base (s1\<lparr>base := b'\<rparr>)) \<noteq> Verbose"
        using lv1 by (simp add: b'_def handle_body_logLevel)
      have "handleData_loop s = handleData_loop (s1\<lparr>base := b'\<rparr>)"
        using True ge hb
        by (subst handleData_loop.simps) (simp add: Let_def s1_def [symmetric] body_def [symmetric])
      moreover have "fst (handleData_loop (s1\<lparr>base := b'\<rparr>)) = None"
        using "1.IH"(1) [OF True ge body_def s1_def hb [symmetric] refl lv2] .
      ultimately show ?thesis by simp
    next
      case False
      with True show ?thesis by (subst handleData_loop.simps) simp
    qed
  next
    case False
    show ?thesis
    proof (cases "indexOf (buffer s) (utf8_encode TWO_CRLF)")
      case None
      with False show ?thesis by (subst handleData_loop.simps) simp
    next
      case (Some idx)
      from "1.IH"(2) [OF False Some refl refl] lv False Some show ?thesis
        by (subst handleData_loop.simps) (simp add: Let_def)
    qed
  qed
qed

text \<open>
  A step that the loop can take on a buffer, it takes in the same way when more bytes follow
  in the buffer. So the loop on the longer buffer does what the loop on the shorter one does
  and, unless that ended with an exception, goes on from there with the bytes that follow.
\<close>

lemma loop_append:
  "handleData_loop (s\<lparr>buffer := buffer s @ d\<rparr>)
   = (case handleData_loop s of
        (Some e, s') \<Rightarrow> (Some e, s'\<lparr>buffer := buffer s' @ d\<rparr>)
      | (None, s') \<Rightarrow> handleData_loop (s'\<lparr>buffer := buffer s' @ d\<rparr>))"
proof (induction s rule: handleData_loop.induct)
  case (1 s)
  show ?case
  proof (cases "js_ge (contentLength s) (Finite 0)")
    case True
    show ?thesis
    proof (cases "js_ge (Finite (of_nat (length (buffer s)))) (contentLength s)")
      case ge: True
      from js_ge_window [OF True ge] obtain q where q: "contentLength s = Finite q" "0 \<le> q"
        "q \<le> of_nat (length (buffer s))" by auto
      have n: "offset_of (contentLength s) \<le> length (buffer s)"
        using q by (simp add: offset_of_def offset_le)
      define s1 where "s1 = s\<lparr>buffer := drop (offset_of (contentLength s)) (buffer s),
                       contentLength := Finite (- 1)\<rparr>"
      define body where "body = utf8_decode (take (offset_of (contentLength s)) (buffer s))"
      have ge': "js_ge (Finite (of_nat (length (buffer s @ d)))) (contentLength s)"
        using q by simp
      show ?thesis
      proof (cases "handle_body (base s1) body")
        case (Pair x b')
        show ?thesis
        proof (cases x)
          case None
          define s2 where "s2 = s1\<lparr>base := b'\<rparr>"
          have hb: "handle_body (base s1) body = (None, b')"
            using Pair None by simp
          have l: "handleData_loop s = handleData_loop s2"
            using True ge hb
            by (subst handleData_loop.simps)
               (simp add: Let_def s1_def [symmetric] body_def [symmetric] s2_def)
          have r: "handleData_loop (s\<lparr>buffer := buffer s @ d\<rparr>)
                   = handleData_loop (s2\<lparr>buffer := buffer s2 @ d\<rparr>)"
            using True ge' hb n
            by (subst handleData_loop.simps, cases s)
               (simp add: Let_def s2_def s1_def body_def)
          have "handleData_loop (s2\<lparr>buffer := buffer s2 @ d\<rparr>)
                = (case handleData_loop s2 of
                     (Some e, s') \<Rightarrow> (Some e, s'\<lparr>buffer := buffer s' @ d\<rparr>)
                   | (None, s') \<Rightarrow> handleData_loop (s'\<lparr>buffer := buffer s' @ d\<rparr>))"
            using "1.IH"(1) [OF True ge body_def s1_def hb [symmetric] refl] by (simp add: s2_def)
          with l r show ?thesis by simp
        next
          case (Some e)
          define s2 where "s2 = s1\<lparr>base := b'\<rparr>"
          have hb: "handle_body (base s1) body = (Some e, b')"
            using Pair Some by simp
          have l: "handleData_loop s = (Some e, s2)"
            using True ge hb
            by (subst handleData_loop.simps)
               (simp add: Let_def s1_def [symmetric] body_def [symmetric] s2_def)
          have r: "handleData_loop (s\<lparr>buffer := buffer s @ d\<rparr>)
                   = (Some e, s2\<lparr>buffer := buffer s2 @ d\<rparr>)"
            using True ge' hb n
            by (subst handleData_loop.simps, cases s)
               (simp add: Let_def s2_def s1_def body_def)
          from l r show ?thesis by simp
        qed
      qed
    next
      case False
      with True have "handleData_loop s = (None, s)" by (subst handleData_loop.simps) simp
      then show ?thesis by simp
    qed
  next
    case False
    show ?thesis
    proof (cases "indexOf (buffer s) (utf8_encode TWO_CRLF)")
      case None
      with False have "handleData_loop s = (None, s)" by (subst handleData_loop.simps) simp
      then show ?thesis by simp
    next
      case (Some idx)
      define s2 where "s2 = s\<lparr>contentLength := header_lines (contentLength s)
                                 (split_crlf (utf8_decode (take idx (buffer s)))),
                               buffer := drop (idx + length TWO_CRLF) (buffer s)\<rparr>"
      have l: "handleData_loop s = handleData_loop s2"
        using False Some by (subst handleData_loop.simps) (simp add: Let_def s2_def)
      from indexOf_Some_bound [OF Some] have b: "idx + length TWO_CRLF \<le> length (buffer s)"
        by (simp add: TWO_CRLF_def)
      have r: "handleData_loop (s\<lparr>buffer := buffer s @ d\<rparr>)
               = handleData_loop (s2\<lparr>buffer := buffer s2 @ d\<rparr>)"
        using False indexOf_append [OF Some, of d] b
        by (subst handleData_loop.simps, cases s) (simp add: Let_def s2_def)
      have "handleData_loop (s2\<lparr>buffer := buffer s2 @ d\<rparr>)
            = (case handleData_loop s2 of
                 (Some e, s') \<Rightarrow> (Some e, s'\<lparr>buffer := buffer s' @ d\<rparr>)
               | (None, s') \<Rightarrow> handleData_loop (s'\<lparr>buffer := buffer s' @ d\<rparr>))"
        using "1.IH"(2) [OF False Some refl refl] by (simp add: s2_def)
      with l r show ?thesis by simp
    qed
  qed
qed

lemma handleData_append:
  "handleData s (a @ b)
   = (case handleData s a of
        (Some e, s') \<Rightarrow> (Some e, s'\<lparr>buffer := buffer s' @ b\<rparr>)
      | (None, s') \<Rightarrow> handleData s' b)"
  using loop_append [of "s\<lparr>buffer := buffer s @ a\<rparr>" b]
  unfolding handleData_def by simp

text \<open>
  The chunks one after another against their concatenation in one chunk: the same result
  when no exception leaves \<open>handleData\<close>; when one does, it is the same exception on the
  same client, and the chunks not yet given are what the buffer of the client lacks.
\<close>

lemma feed_concat:
  "chunks \<noteq> [] \<Longrightarrow>
     (case feed s chunks of
        (None, s') \<Rightarrow> handleData s (concat chunks) = (None, s')
      | (Some e, s') \<Rightarrow> (\<exists>d. handleData s (concat chunks) = (Some e, s'\<lparr>buffer := buffer s' @ d\<rparr>)))"
proof (induction chunks arbitrary: s)
  case Nil
  then show ?case by simp
next
  case (Cons c cs)
  show ?case
  proof (cases "handleData s c")
    case (Pair x s1)
    show ?thesis
    proof (cases x)
      case (Some e)
      have "handleData s (c @ concat cs) = (Some e, s1\<lparr>buffer := buffer s1 @ concat cs\<rparr>)"
        using Pair Some by (simp add: handleData_append)
      then show ?thesis using Pair Some by auto
    next
      case None
      show ?thesis
      proof (cases "cs = []")
        case True
        with Pair None show ?thesis by simp
      next
        case False
        have f: "feed s (c # cs) = feed s1 cs" using Pair None by simp
        have h: "handleData s (concat (c # cs)) = handleData s1 (concat cs)"
          using Pair None by (simp add: handleData_append)
        from Cons.IH [OF False, of s1] show ?thesis by (simp only: f h)
      qed
    qed
  qed
qed

text \<open>
  C3. For every message and every way of cutting the bytes of its encoding into two or more
  consecutive chunks, giving the chunks to \<open>handleData\<close> one after another ends as giving it
  all the bytes in one chunk, from any state of the client: with the same exception or with
  none, on the same client, hence with the same messages handled in the same order
  (\<open>handled\<close>), and with the same expected content length; and when \<open>handleData\<close> returns, in
  the very same state, the buffer included.
\<close>

theorem chunk_boundaries_do_not_matter:
  "concat chunks = utf8_encode (encodeMessage message) \<Longrightarrow> 2 \<le> length chunks \<Longrightarrow>
     fst (feed s chunks) = fst (handleData s (utf8_encode (encodeMessage message)))
     \<and> base (snd (feed s chunks)) = base (snd (handleData s (utf8_encode (encodeMessage message))))
     \<and> contentLength (snd (feed s chunks))
         = contentLength (snd (handleData s (utf8_encode (encodeMessage message))))
     \<and> (fst (handleData s (utf8_encode (encodeMessage message))) = None \<longrightarrow>
          feed s chunks = handleData s (utf8_encode (encodeMessage message)))"
proof -
  assume c: "concat chunks = utf8_encode (encodeMessage message)" and l: "2 \<le> length chunks"
  from l have "chunks \<noteq> []" by auto
  from feed_concat [OF this, of s] c show ?thesis
    by (cases "feed s chunks") (auto split: option.splits)
qed

subsection \<open>ASCII text and decimal numbers\<close>

lemma unat_ucast_ascii: "unat (u :: 16 word) < 128 \<Longrightarrow> unat (ucast u :: 8 word) = unat u"
  by (simp add: unsigned_ucast_eq take_bit_nat_eq_self)

lemma ucast_ucast_ascii: "unat (u :: 16 word) < 128 \<Longrightarrow> (ucast (ucast u :: 8 word) :: 16 word) = u"
  by (simp add: word_unat_eq_iff unsigned_ucast_eq unsigned_take_bit_eq take_bit_nat_eq_self)

lemma utf8_encode_ascii_step:
  "unat u < 128 \<Longrightarrow> utf8_encode (u # us) = ucast u # utf8_encode us"
  by (simp add: Let_def)

lemma utf8_decode_ascii_step:
  "unat b < 128 \<Longrightarrow> utf8_decode (b # bs) = ucast b # utf8_decode bs"
  by (simp add: Let_def)

lemma nat_digits_small: "n < 10 \<Longrightarrow> nat_digits n = [digit_unit n]"
  by (subst nat_digits.simps) simp

lemma nat_digits_large: "\<not> n < 10 \<Longrightarrow> nat_digits n = nat_digits (n div 10) @ [digit_unit (n mod 10)]"
  by (subst nat_digits.simps) simp

lemma digit_unit_unat: "d < 10 \<Longrightarrow> unat (digit_unit d) = 48 + d"
  by (simp add: digit_unit_def unat_of_nat del: of_nat_add)

lemma digit_unit_is_digit: "d < 10 \<Longrightarrow> is_digit (digit_unit d)"
  by (simp add: is_digit_def digit_unit_unat)

lemma nat_digits_digits: "u \<in> set (nat_digits n) \<Longrightarrow> is_digit u"
proof (induction n rule: nat_digits.induct)
  case (1 n)
  show ?case
  proof (cases "n < 10")
    case True
    with "1.prems" show ?thesis by (simp add: nat_digits_small digit_unit_is_digit)
  next
    case False
    with "1.prems" "1.IH" show ?thesis by (auto simp: nat_digits_large digit_unit_is_digit)
  qed
qed

lemma nat_digits_nonempty: "nat_digits n \<noteq> []"
  by (cases "n < 10") (simp_all add: nat_digits_small nat_digits_large)

lemma digits_value_snoc: "digits_value (ds @ [d]) = 10 * digits_value ds + (unat d - 48)"
  by (simp add: digits_value_def)

lemma digits_value_nat_digits: "digits_value (nat_digits n) = n"
proof (induction n rule: nat_digits.induct)
  case (1 n)
  show ?case
  proof (cases "n < 10")
    case True
    then show ?thesis by (simp add: nat_digits_small digits_value_def digit_unit_unat)
  next
    case False
    with "1.IH" show ?thesis
      by (simp add: nat_digits_large digits_value_snoc digit_unit_unat)
  qed
qed

lemma number_to_string_nat: "number_to_string (of_nat n) = nat_digits n"
  by (simp add: number_to_string_def Let_def)

lemma is_digit_not_ws: "is_digit u \<Longrightarrow> \<not> is_js_whitespace u"
  by (simp add: is_digit_def is_js_whitespace_def Let_def)

lemma is_digit_unat: "is_digit u \<Longrightarrow> unat u < 128"
  by (simp add: is_digit_def)

lemma is_digit_neq: "is_digit u \<Longrightarrow> unat c < 48 \<or> 57 < unat c \<Longrightarrow> u \<noteq> c"
  by (auto simp: is_digit_def)


lemma utf8_encode_ascii:
  "\<forall>u \<in> set s. unat u < 128 \<Longrightarrow> utf8_encode (s @ t) = map ucast s @ utf8_encode t"
  by (induction s) (simp_all add: utf8_encode_ascii_step del: utf8_encode.simps)

lemma utf8_decode_ascii:
  "\<forall>b \<in> set bs. unat b < 128 \<Longrightarrow> utf8_decode (bs @ cs) = map ucast bs @ utf8_decode cs"
  by (induction bs) (simp_all add: utf8_decode_ascii_step del: utf8_decode.simps)

lemma utf8_roundtrip_ascii:
  "\<forall>u \<in> set s. unat u < 128 \<Longrightarrow> utf8_decode (map ucast s :: buffer) = s"
proof -
  assume a: "\<forall>u \<in> set s. unat u < 128"
  then have "\<forall>b \<in> set (map ucast s :: buffer). unat b < 128"
    by (auto simp: unat_ucast_ascii)
  from utf8_decode_ascii [OF this, of "[]"]
  have "utf8_decode (map ucast s :: buffer) = map ucast (map ucast s :: buffer)"
    by simp
  also have "\<dots> = s" using a by (induction s) (simp_all add: ucast_ucast_ascii)
  finally show ?thesis .
qed

lemma all_digits_takeWhile: "\<forall>u \<in> set ds. is_digit u \<Longrightarrow> takeWhile is_digit ds = ds \<and> dropWhile is_digit ds = []"
  by simp

lemma parse_exponent_Nil: "parse_exponent [] = Some (0, [])"
  by (simp add: parse_exponent_def)

lemma unsigned_decimal_digits:
  assumes d: "\<forall>u \<in> set ds. is_digit u" and n: "ds \<noteq> []"
  shows "unsigned_decimal ds = Some (of_nat (digits_value ds))"
proof -
  have tw: "takeWhile is_digit ds = ds" and dw: "dropWhile is_digit ds = []"
    using d by simp_all
  have z: "digits_value [] = 0" by (simp add: digits_value_def)
  show ?thesis
    using n by (simp add: unsigned_decimal_def Let_def tw dw parse_exponent_Nil pow10_def z)
qed

lemma dropWhile_none: "\<forall>x \<in> set xs. \<not> P x \<Longrightarrow> dropWhile P xs = xs"
  by (cases xs) simp_all

lemma trim_digits: "\<forall>u \<in> set ds. is_digit u \<Longrightarrow> trim ds = ds"
  by (simp add: trim_def dropWhile_none is_digit_not_ws)

lemma to_number_digits:
  assumes d: "\<forall>u \<in> set ds. is_digit u" and n: "ds \<noteq> []"
  shows "to_number (Some ds) = Finite (of_nat (digits_value ds))"
proof -
  from n obtain a r where ds: "ds = a # r" by (cases ds) auto
  with d have a: "is_digit a" by simp
  have second: "r \<noteq> [] \<Longrightarrow> is_digit (hd r)" using d ds by (cases r) auto
  have t2: "take 2 ds \<noteq> [0x30, c]" if "unat c < 48 \<or> 57 < unat c" for c
    using ds second is_digit_neq [OF _ that] by (cases r) auto
  have h: "hd ds \<noteq> 0x2B" "hd ds \<noteq> 0x2D"
    using ds is_digit_neq [OF a] by simp_all
  have i: "ds \<noteq> str ''Infinity''"
    using ds is_digit_neq [OF a, of "0x49"] by (simp add: str_simps)
  show ?thesis
    using t2 [of "0x78"] t2 [of "0x58"] t2 [of "0x6F"] t2 [of "0x4F"] t2 [of "0x62"] t2 [of "0x42"]
      h i n
    by (simp add: to_number_def trim_digits [OF d] Let_def str_simps unsigned_decimal_digits [OF d n])
qed

lemma to_number_nat_digits: "to_number (Some (nat_digits n)) = Finite (of_nat n)"
  using to_number_digits [of "nat_digits n"] nat_digits_digits nat_digits_nonempty
  by (simp add: digits_value_nat_digits)



subsection \<open>One frame\<close>

lemma split_crlf_plain: "0x0D \<notin> set s \<Longrightarrow> split_crlf s = [s]"
  by (induction s rule: split_crlf.induct) simp_all

lemma split_colon_spaces_plain: "0x3A \<notin> set s \<Longrightarrow> split_colon_spaces s = [s]"
  by (induction s) simp_all

lemma split_colon_spaces_pair:
  "0x3A \<notin> set a \<Longrightarrow> split_colon_spaces (a @ 0x3A # 0x20 # t)
     = a # split_colon_spaces (dropWhile (\<lambda>v. v = 0x20) t)"
  by (induction a) simp_all

lemma header_text_ascii:
  "\<forall>u \<in> set (CONTENT_LENGTH_HEADER @ str '': '' @ nat_digits n @ TWO_CRLF). unat u < 128"
  using nat_digits_digits [of _ n]
  by (auto simp: CONTENT_LENGTH_HEADER_def TWO_CRLF_def str_simps dest: is_digit_unat)

lemma header_line:
  "split_colon_spaces (CONTENT_LENGTH_HEADER @ str '': '' @ nat_digits n) = [CONTENT_LENGTH_HEADER, nat_digits n]"
proof -
  have c: "0x3A \<notin> set CONTENT_LENGTH_HEADER"
    by (simp add: CONTENT_LENGTH_HEADER_def str_simps)
  have d: "\<forall>u \<in> set (nat_digits n). \<not> u = 0x20" "0x3A \<notin> set (nat_digits n)"
    using nat_digits_digits [of _ n] is_digit_neq [of _ "0x20"] is_digit_neq [of _ "0x3A"] by auto
  from split_colon_spaces_pair [OF c, of "nat_digits n"]
  show ?thesis
    by (simp add: str_simps dropWhile_none [OF d(1)] split_colon_spaces_plain [OF d(2)])
qed

lemma header_lines_content_length:
  "header_lines cl (split_crlf (CONTENT_LENGTH_HEADER @ str '': '' @ nat_digits n)) = Finite (of_nat n)"
proof -
  have "0x0D \<notin> set (CONTENT_LENGTH_HEADER @ str '': '' @ nat_digits n)"
    using nat_digits_digits [of _ n] is_digit_neq [of _ "0x0D"]
    by (auto simp: CONTENT_LENGTH_HEADER_def str_simps)
  then show ?thesis
    by (simp add: split_crlf_plain header_line element_def to_number_nat_digits)
qed

lemma indexOf_at:
  "p \<noteq> [] \<Longrightarrow> hd p \<notin> set h \<Longrightarrow> indexOf (h @ p @ r) p = Some (length h)"
proof (induction h)
  case Nil
  then show ?case by (cases p) simp_all
next
  case (Cons a h)
  then have "take (length p) ((a # h) @ p @ r) \<noteq> p"
    by (cases p) auto
  with Cons show ?case by simp
qed



lemma two_crlf_bytes: "utf8_encode TWO_CRLF = [0x0D, 0x0A, 0x0D, 0x0A]"
  by (simp add: TWO_CRLF_def)

lemma header_bytes:
  "utf8_encode (CONTENT_LENGTH_HEADER @ str '': '' @ nat_digits n @ TWO_CRLF)
   = map ucast (CONTENT_LENGTH_HEADER @ str '': '' @ nat_digits n) @ [0x0D, 0x0A, 0x0D, 0x0A]"
  using utf8_encode_ascii [OF header_text_ascii, of n "[]"]
  by (simp add: TWO_CRLF_def)

lemma header_text_no_cr: "0x0D \<notin> set (CONTENT_LENGTH_HEADER @ str '': '' @ nat_digits n)"
  using nat_digits_digits [of _ n] is_digit_neq [of _ "0x0D"]
  by (auto simp: CONTENT_LENGTH_HEADER_def str_simps)

lemma header_unit_ascii: "u \<in> set (CONTENT_LENGTH_HEADER @ str '': '' @ nat_digits n) \<Longrightarrow> unat u < 128"
  using header_text_ascii [of n] by auto

lemma ucast_cr: "unat (u :: 16 word) < 128 \<Longrightarrow> (ucast u :: byte) = 0x0D \<Longrightarrow> u = 0x0D"
proof -
  assume a: "unat u < 128" and e: "(ucast u :: byte) = 0x0D"
  from ucast_ucast_ascii [OF a] e have "u = ucast (0x0D :: byte)" by simp
  then show "u = 0x0D" by simp
qed

lemma not_in_map: "(\<And>u. u \<in> set xs \<Longrightarrow> f u \<noteq> c) \<Longrightarrow> c \<notin> set (map f xs)"
  by auto

lemma header_no_cr:
  "(0x0D :: byte) \<notin> set (map ucast (CONTENT_LENGTH_HEADER @ str '': '' @ nat_digits n))"
proof (rule not_in_map)
  fix u :: "16 word"
  assume u: "u \<in> set (CONTENT_LENGTH_HEADER @ str '': '' @ nat_digits n)"
  show "(ucast u :: byte) \<noteq> 0x0D"
    using u header_unit_ascii [OF u] ucast_cr [of u] header_text_no_cr [of n] by blast
qed


lemma loop_frame:
  assumes idle: "\<not> js_ge (contentLength s) (Finite 0)"
    and buf: "buffer s = utf8_encode (CONTENT_LENGTH_HEADER @ str '': '' @ nat_digits n @ TWO_CRLF) @ rest"
    and len: "n \<le> length rest"
  shows "handleData_loop s
         = (case handle_body (base s) (utf8_decode (take n rest)) of
              (Some e, b') \<Rightarrow>
                (Some e, s\<lparr>buffer := drop n rest, contentLength := Finite (- 1), base := b'\<rparr>)
            | (None, b') \<Rightarrow>
                handleData_loop (s\<lparr>buffer := drop n rest, contentLength := Finite (- 1), base := b'\<rparr>))"
proof -
  define hdr where "hdr = CONTENT_LENGTH_HEADER @ str '': '' @ nat_digits n"
  define hb :: buffer where "hb = map ucast hdr"
  have b: "buffer s = hb @ [0x0D, 0x0A, 0x0D, 0x0A] @ rest"
    using buf by (simp add: header_bytes hb_def hdr_def)
  have nocr: "hd [0x0D, 0x0A, 0x0D, 0x0A :: byte] \<notin> set hb"
    using header_no_cr [of n] by (simp add: hb_def hdr_def)
  have idx: "indexOf (buffer s) (utf8_encode TWO_CRLF) = Some (length hb)"
    unfolding b two_crlf_bytes
    by (rule indexOf_at [OF _ nocr]) simp
  have asc: "\<forall>u \<in> set hdr. unat u < 128"
    using header_text_ascii [of n] by (auto simp: hdr_def)
  have dec: "utf8_decode (take (length hb) (buffer s)) = hdr"
    by (simp add: b) (simp add: hb_def utf8_roundtrip_ascii [OF asc])
  have rest: "drop (length hb + length TWO_CRLF) (buffer s) = rest"
    by (simp add: b TWO_CRLF_def)
  define s1 where "s1 = s\<lparr>contentLength := Finite (of_nat n), buffer := rest\<rparr>"
  have step1: "handleData_loop s = handleData_loop s1"
    using idle idx
    by (subst handleData_loop.simps)
       (simp add: Let_def dec rest s1_def header_lines_content_length hdr_def)
  show ?thesis
  proof (cases "handle_body (base s) (utf8_decode (take n rest))")
    case (Pair x b')
    show ?thesis
    proof (cases x)
      case None
      have "handleData_loop s1
         = handleData_loop (s\<lparr>buffer := drop n rest, contentLength := Finite (- 1), base := b'\<rparr>)"
        using len Pair None
        by (subst handleData_loop.simps, cases s) (simp add: Let_def s1_def offset_of_def)
      with step1 Pair None show ?thesis by simp
    next
      case (Some e)
      have "handleData_loop s1
         = (Some e, s\<lparr>buffer := drop n rest, contentLength := Finite (- 1), base := b'\<rparr>)"
        using len Pair Some
        by (subst handleData_loop.simps, cases s) (simp add: Let_def s1_def offset_of_def)
      with step1 Pair Some show ?thesis by simp
    qed
  qed
qed

lemma loop_frame_returns:
  assumes idle: "\<not> js_ge (contentLength s) (Finite 0)"
    and buf: "buffer s = utf8_encode (CONTENT_LENGTH_HEADER @ str '': '' @ nat_digits n @ TWO_CRLF) @ rest"
    and len: "n \<le> length rest"
    and hb: "handle_body (base s) (utf8_decode (take n rest)) = (None, b')"
  shows "handleData_loop s
         = handleData_loop (s\<lparr>buffer := drop n rest, contentLength := Finite (- 1), base := b'\<rparr>)"
  using loop_frame [OF idle buf len] hb by simp

lemma loop_frame_throws:
  assumes idle: "\<not> js_ge (contentLength s) (Finite 0)"
    and buf: "buffer s = utf8_encode (CONTENT_LENGTH_HEADER @ str '': '' @ nat_digits n @ TWO_CRLF) @ rest"
    and len: "n \<le> length rest"
    and hb: "handle_body (base s) (utf8_decode (take n rest)) = (Some e, b')"
  shows "handleData_loop s
         = (Some e, s\<lparr>buffer := drop n rest, contentLength := Finite (- 1), base := b'\<rparr>)"
  using loop_frame [OF idle buf len] hb by simp

lemma loop_idle:
  "\<not> js_ge (contentLength s) (Finite 0) \<Longrightarrow> buffer s = [] \<Longrightarrow> handleData_loop s = (None, s)"
  by (subst handleData_loop.simps) (simp add: two_crlf_bytes)

lemma frame_bytes:
  "frame body
   = utf8_encode (CONTENT_LENGTH_HEADER @ str '': '' @ nat_digits (length body) @ TWO_CRLF) @ body"
  by (simp add: frame_def number_to_string_nat)

lemma loop_frames:
  "logLevel (base s) \<noteq> Verbose \<Longrightarrow> contentLength s = Finite (- 1) \<Longrightarrow>
   buffer s = concat (map frame bodies) \<Longrightarrow>
     handleData_loop s
     = (None, s\<lparr>buffer := [],
                 base := foldl (\<lambda>b body. snd (handle_body b (utf8_decode body))) (base s) bodies\<rparr>)"
proof (induction bodies arbitrary: s)
  case Nil
  then have "handleData_loop s = (None, s)" by (simp add: loop_idle)
  moreover have "s\<lparr>buffer := [], base := base s\<rparr> = s" using Nil by (cases s) simp
  ultimately show ?case by simp
next
  case (Cons body bodies)
  define b' where "b' = snd (handle_body (base s) (utf8_decode body))"
  define s' where "s' = s\<lparr>buffer := concat (map frame bodies), contentLength := Finite (- 1),
                base := b'\<rparr>"
  have lv: "logLevel (base s) \<noteq> Verbose" by (rule Cons.prems(1))
  have idle: "\<not> js_ge (contentLength s) (Finite 0)" using Cons.prems by simp
  have buf: "buffer s = utf8_encode (CONTENT_LENGTH_HEADER @ str '': '' @ nat_digits (length body) @ TWO_CRLF)
               @ (body @ concat (map frame bodies))"
    using Cons.prems by (simp add: frame_bytes [of body])
  have hb: "handle_body (base s) (utf8_decode (take (length body) (body @ concat (map frame bodies))))
            = (None, b')"
    using handle_body_None [OF lv, of "utf8_decode body"] by (simp add: b'_def)
  have lv': "logLevel (base s') \<noteq> Verbose"
    using lv by (simp add: s'_def b'_def handle_body_logLevel)
  from loop_frame_returns [OF idle buf _ hb] have "handleData_loop s = handleData_loop s'"
    by (simp add: s'_def)
  also have "\<dots> = (None, s'\<lparr>buffer := [],
                 base := foldl (\<lambda>b body. snd (handle_body b (utf8_decode body))) (base s') bodies\<rparr>)"
    by (rule Cons.IH [OF lv']) (simp_all add: s'_def)
  also have "s'\<lparr>buffer := [],
                 base := foldl (\<lambda>b body. snd (handle_body b (utf8_decode body))) (base s') bodies\<rparr>
     = s\<lparr>buffer := [],
          base := foldl (\<lambda>b body. snd (handle_body b (utf8_decode body))) (base s) (body # bodies)\<rparr>"
    using Cons.prems by (cases s) (simp add: s'_def b'_def)
  finally show ?case .
qed

text \<open>
  Below the level \<open>Verbose\<close> no exception leaves \<open>handleData\<close>, whatever the state and the
  chunk, and a chunk made of complete frames, given from the empty decode state, has every
  body decoded and handled in order, each by the \<open>try\<close>/\<open>catch\<close> of the loop and each on the
  client the one before it left, whether or not an earlier body threw.
\<close>

lemma handleData_returns_below_verbose:
  "logLevel (base s) \<noteq> Verbose \<Longrightarrow> fst (handleData s data) = None"
  by (simp add: handleData_def loop_returns_below_verbose)

lemma frames_handled_in_order:
  assumes lv: "logLevel (base s) \<noteq> Verbose"
    and a: "buffer s = []" "contentLength s = Finite (- 1)"
  shows "handleData s (concat (map frame bodies))
         = (None, s\<lparr>base := foldl (\<lambda>b body. snd (handle_body b (utf8_decode body))) (base s) bodies\<rparr>)"
proof -
  have "handleData s (concat (map frame bodies))
     = (None, (s\<lparr>buffer := buffer s @ concat (map frame bodies)\<rparr>)\<lparr>buffer := [],
          base := foldl (\<lambda>b body. snd (handle_body b (utf8_decode body)))
                    (base (s\<lparr>buffer := buffer s @ concat (map frame bodies)\<rparr>)) bodies\<rparr>)"
    unfolding handleData_def using lv a by (intro loop_frames) simp_all
  also have "(s\<lparr>buffer := buffer s @ concat (map frame bodies)\<rparr>)\<lparr>buffer := [],
          base := foldl (\<lambda>b body. snd (handle_body b (utf8_decode body)))
                    (base (s\<lparr>buffer := buffer s @ concat (map frame bodies)\<rparr>)) bodies\<rparr>
     = s\<lparr>base := foldl (\<lambda>b body. snd (handle_body b (utf8_decode body))) (base s) bodies\<rparr>"
    using a by (cases s) simp
  finally show ?thesis .
qed

text \<open>
  What the \<open>try\<close> block throws is logged with the body, unless the level is \<open>Verbose\<close> and the
  thrown value cannot be serialised: then the \<open>TypeError\<close> of \<open>JSON.stringify\<close> leaves the
  \<open>catch\<close> block, with nothing logged.
\<close>

lemma caught_and_logged:
  "body \<noteq> [] \<Longrightarrow> try_block b body = (Some e, b') \<Longrightarrow>
     handle_body b body
     = (if logLevel b = Verbose \<and> isl (stringify_error e) then (Some (projl (stringify_error e)), b')
        else (None, log_msg b' (str ''Error handling message '' @ quoted body) (Some (DetailError e))))"
  using try_block_logLevel [of b body "Some e" b']
  by (simp add: handle_body_def catch_block_def)



subsection \<open>Encoded messages through the decoder\<close>

lemmas parse_numeral_fuel =
  parse_value.simps(2) [of "pred_numeral k" for k, folded numeral_eq_Suc]
  parse_elements.simps(2) [of "pred_numeral k" for k, folded numeral_eq_Suc]
  parse_members.simps(2) [of "pred_numeral k" for k, folded numeral_eq_Suc]

lemmas json_parse_defs = JSON_parse_def skip_ws_def is_json_ws_def is_digit_def strip_prefix_def
  cons_fst_def hex_value_def simple_escape_def parse_number_def parse_exponent_def pow10_def
  digits_value_def make_object_def str_simps Let_def parse_numeral_fuel

lemmas json_text_defs = JSON_stringify_def wrap_items_def quote_json_string_def number_to_string_def
  digit_unit_def is_high_surrogate_def is_low_surrogate_def str_simps nat_digits.simps

lemma utf8_encode_ascii_all:
  "\<forall>u \<in> set s. unat u < 128 \<Longrightarrow> utf8_encode s = map ucast s"
  using utf8_encode_ascii [of s "[]"] by simp

lemma utf8_roundtrip:
  "\<forall>u \<in> set s. unat u < 128 \<Longrightarrow> utf8_decode (utf8_encode s) = s"
  by (simp add: utf8_encode_ascii_all utf8_roundtrip_ascii)

lemma encodeMessage_frame:
  assumes a: "\<forall>u \<in> set (JSON_stringify message). unat u < 128"
  shows "utf8_encode (encodeMessage message) = frame (utf8_encode (JSON_stringify message))"
proof -
  define body where "body = JSON_stringify message"
  have l: "length (utf8_encode body) = length body"
    using a by (simp add: body_def utf8_encode_ascii_all)
  have "utf8_encode (encodeMessage message)
      = utf8_encode ((CONTENT_LENGTH_HEADER @ str '': '' @ nat_digits (length body) @ TWO_CRLF) @ body)"
    by (simp add: encodeMessage_def Let_def body_def number_to_string_nat)
  also have "\<dots> = map ucast (CONTENT_LENGTH_HEADER @ str '': '' @ nat_digits (length body) @ TWO_CRLF)
                  @ utf8_encode body"
    by (rule utf8_encode_ascii [OF header_text_ascii])
  also have "\<dots> = utf8_encode (CONTENT_LENGTH_HEADER @ str '': '' @ nat_digits (length body) @ TWO_CRLF)
                  @ utf8_encode body"
    by (simp only: utf8_encode_ascii_all [OF header_text_ascii])
  also have "\<dots> = frame (utf8_encode body)"
    by (simp add: frame_def l number_to_string_nat)
  finally show ?thesis by (simp add: body_def)
qed

text \<open>
  The first frame of a chunk given from the empty decode state: its body is handled, and
  unless an exception leaves the \<open>catch\<close> block, the loop goes on with what follows the frame.
\<close>

lemma handleData_first_frame:
  assumes b: "buffer s = []" and c: "contentLength s = Finite (- 1)"
  shows "handleData s (frame body @ later)
         = (case handle_body (base s) (utf8_decode body) of
              (Some e, b') \<Rightarrow> (Some e, s\<lparr>buffer := later, base := b'\<rparr>)
            | (None, b') \<Rightarrow> handleData (s\<lparr>base := b'\<rparr>) later)"
proof -
  define s0 where "s0 = s\<lparr>buffer := buffer s @ frame body @ later\<rparr>"
  have h0: "handleData s (frame body @ later) = handleData_loop s0"
    by (simp add: handleData_def s0_def)
  have idle: "\<not> js_ge (contentLength s0) (Finite 0)"
    by (simp add: s0_def c)
  have buf: "buffer s0
      = utf8_encode (CONTENT_LENGTH_HEADER @ str '': '' @ nat_digits (length body) @ TWO_CRLF)
        @ (body @ later)"
    by (simp add: s0_def b frame_bytes)
  have len: "length body \<le> length (body @ later)"
    by simp
  have after: "s0\<lparr>buffer := drop (length body) (body @ later), contentLength := Finite (- 1), base := b'\<rparr>
      = s\<lparr>buffer := later, base := b'\<rparr>" for b'
    using c by (cases s) (simp add: s0_def)
  have on: "handleData (s\<lparr>base := b'\<rparr>) later = handleData_loop (s\<lparr>buffer := later, base := b'\<rparr>)" for b'
    using b by (cases s) (simp add: handleData_def)
  show ?thesis
  proof (cases "handle_body (base s) (utf8_decode body)")
    case (Pair x b')
    then have hb: "handle_body (base s0) (utf8_decode (take (length body) (body @ later))) = (x, b')"
      by (simp add: s0_def)
    show ?thesis
    proof (cases x)
      case None
      from loop_frame_returns [OF idle buf len hb [unfolded None]]
      have "handleData_loop s0 = handleData_loop (s\<lparr>buffer := later, base := b'\<rparr>)"
        by (simp only: after)
      with Pair None show ?thesis by (simp add: h0 on)
    next
      case (Some e)
      from loop_frame_throws [OF idle buf len hb [unfolded Some]]
      have "handleData_loop s0 = (Some e, s\<lparr>buffer := later, base := b'\<rparr>)"
        by (simp only: after)
      with Pair Some show ?thesis by (simp add: h0)
    qed
  qed
qed

lemma handleData_one_frame:
  assumes b: "buffer s = []" and c: "contentLength s = Finite (- 1)"
    and hb: "handle_body (base s) (utf8_decode body) = (None, b')"
  shows "handleData s (frame body) = (None, s\<lparr>base := b'\<rparr>)"
proof -
  have "handleData (s\<lparr>base := b'\<rparr>) [] = (None, s\<lparr>base := b'\<rparr>)"
    using b c by (simp add: handleData_def loop_idle)
  with handleData_first_frame [OF b c, of body "[]"] hb show ?thesis by simp
qed

lemma run_in_terminal_text:
  "JSON_stringify run_in_terminal_request
   = str ''{\"seq\":7,\"type\":\"request\",\"command\":\"runInTerminal\",\"arguments\":{\"cwd\":\"/\"}}''"
  by (simp add: run_in_terminal_request_def json_text_defs split del: if_split)

lemma run_in_terminal_ascii: "\<forall>u \<in> set (JSON_stringify run_in_terminal_request). unat u < 128"
  by (simp add: run_in_terminal_text str_simps)

lemma run_in_terminal_parse:
  "JSON_parse (JSON_stringify run_in_terminal_request) = Inr run_in_terminal_request"
  unfolding run_in_terminal_text
  by (simp add: run_in_terminal_request_def json_parse_defs split del: if_split)

lemma run_in_terminal_nonempty: "JSON_stringify run_in_terminal_request \<noteq> []"
  by (simp add: run_in_terminal_text str_simps)

lemma connected_client_idle:
  "buffer connected_client = []" "contentLength connected_client = Finite (- 1)"
  "handled (base connected_client) = []"
  "reverseRequestHandlers (base connected_client) = Map.empty"
  "logLevel (base connected_client) = On"
  by (simp_all add: connected_client_def connectAdapter_def new_StreamDebugClient_def new_BaseDebugClient_def)

lemma run_in_terminal_decoded:
  "handleData connected_client (utf8_encode (encodeMessage run_in_terminal_request))
   = (None,
      connected_client\<lparr>base :=
        log_msg ((base connected_client)\<lparr>handled := [run_in_terminal_request]\<rparr>)
          (received_request_text run_in_terminal_request @ str '' but no handler is registered'')
          (Some (DetailJson run_in_terminal_request))\<rparr>)"
proof -
  have k: "spec_kind is_number run_in_terminal_request = Request"
    by (rule run_in_terminal_request_fields)
  have h: "handle_body (base connected_client)
              (utf8_decode (utf8_encode (JSON_stringify run_in_terminal_request)))
     = (None,
        log_msg ((base connected_client)\<lparr>handled := [run_in_terminal_request]\<rparr>)
          (received_request_text run_in_terminal_request @ str '' but no handler is registered'')
          (Some (DetailJson run_in_terminal_request)))"
    using run_in_terminal_nonempty
    by (simp add: utf8_roundtrip [OF run_in_terminal_ascii] handle_body_def try_block_def
        run_in_terminal_parse handleMessage_request [OF k] handle_request_def connected_client_idle)
  show ?thesis
    by (simp add: encodeMessage_frame [OF run_in_terminal_ascii]
        handleData_one_frame [OF connected_client_idle(1,2) h])
qed

subsection \<open>Exceptions in the handling of a body\<close>

lemma handleMessage_event:
  "spec_kind is_number m = Event \<Longrightarrow>
     handleMessage b m = handle_event (b\<lparr>handled := handled b @ [m]\<rparr>) m"
proof -
  assume k: "spec_kind is_number m = Event"
  then have n: "m \<noteq> JNull" by (auto simp: spec_kind_def get_prop_def split: if_splits)
  from k n show ?thesis by (simp add: handleMessage_def Let_def type_guards_not_null)
qed

lemma stopped_text:
  "JSON_stringify stopped_event = str ''{\"seq\":2,\"type\":\"event\",\"event\":\"stopped\"}''"
  by (simp add: stopped_event_def json_text_defs split del: if_split)

lemma stopped_ascii: "\<forall>u \<in> set (JSON_stringify stopped_event). unat u < 128"
  by (simp add: stopped_text str_simps)

lemma stopped_parse: "JSON_parse (JSON_stringify stopped_event) = Inr stopped_event"
  unfolding stopped_text
  by (simp add: stopped_event_def json_parse_defs split del: if_split)

lemma stopped_event_fields:
  "spec_kind is_number stopped_event = Event"
  "get_prop stopped_event ''event'' = Some (JString (str ''stopped''))"
  "get_prop stopped_event ''seq'' = Some (JNumber 2)"
  "get_prop stopped_event ''body'' = None"
  by (simp_all add: stopped_event_def spec_kind_def get_prop_def is_number_def
      is_string_def is_boolean_def str_simps)

text \<open>
  A \<open>stopped\<close> event on a client whose one subscriber to it throws: the event is logged, the
  subscriber is called, and what it throws leaves the \<open>try\<close> block.
\<close>

lemma try_block_stopped:
  assumes l: "eventEmitter b (str ''stopped'') = [l]" and t: "cb_throws l None = Some e"
    and o: "\<not> once l"
  shows "try_block b (JSON_stringify stopped_event)
      = (Some e,
         (log_msg (b\<lparr>handled := handled b @ [stopped_event]\<rparr>)
            (str ''Received event '' @ quoted (to_text (get_prop stopped_event ''event''))
             @ str '' ('' @ to_text (get_prop stopped_event ''seq'') @ str '')'')
            (Some (DetailJson stopped_event)))
         \<lparr>eventEmitter := (eventEmitter b)(str ''stopped'' := [l]),
           calls := calls b @ [(cb_id l, None)]\<rparr>)"
proof -
  have n: "str ''stopped'' \<noteq> str ''error''" by (simp add: str_simps)
  show ?thesis
    using l t o n
    by (simp add: try_block_def stopped_parse handleMessage_event [OF stopped_event_fields(1)]
        handle_event_def stopped_event_fields(2,4) the_string_def emit_def)
qed

lemma stopped_nonempty: "JSON_stringify stopped_event \<noteq> []"
  by (simp add: stopped_text str_simps)

lemma verbose_listening_client_fields:
  "buffer verbose_listening_client = []"
  "contentLength verbose_listening_client = Finite (- 1)"
  "logLevel (base verbose_listening_client) = Verbose"
  "loggerName (base verbose_listening_client) = str ''client''"
  "handled (base verbose_listening_client) = []"
  "calls (base verbose_listening_client) = []"
  "logger_lines (base verbose_listening_client) = []"
  "eventEmitter (base verbose_listening_client) (str ''stopped'') = [circular_listener]"
  by (simp_all add: verbose_listening_client_def verbose_client_def connectAdapter_def
      new_StreamDebugClient_def new_BaseDebugClient_def)

lemma circular_listener_fields:
  "cb_throws circular_listener None = Some (CircularError (str ''boom''))"
  "\<not> once circular_listener" "cb_id circular_listener = 0"
  by (simp_all add: circular_listener_def)

lemma stopped_indent2:
  "JSON_stringify_indent2 stopped_event \<noteq> []"
  by (simp add: stopped_event_def JSON_stringify_indent2_def wrap_items_def str_simps)

lemma stopped_detail:
  "log_detail_message Verbose (Some (DetailJson stopped_event)) = Some (JSON_stringify_indent2 stopped_event)"
  by (simp add: log_detail_message_def stopped_event_def)

text \<open>The \<open>stopped\<close> event, and whatever follows it in the chunk, on that client.\<close>

lemma stopped_event_throws:
  "fst (handleData verbose_listening_client
          (frame (utf8_encode (JSON_stringify stopped_event)) @ later)) = Some (JsError TypeError [])"
  "handled (base (snd (handleData verbose_listening_client
          (frame (utf8_encode (JSON_stringify stopped_event)) @ later)))) = [stopped_event]"
  "calls (base (snd (handleData verbose_listening_client
          (frame (utf8_encode (JSON_stringify stopped_event)) @ later)))) = [(0, None)]"
  "logger_lines (base (snd (handleData verbose_listening_client
          (frame (utf8_encode (JSON_stringify stopped_event)) @ later))))
     = [str ''[client] Received event '' @ quoted (str ''stopped'') @ str '' (2) ''
        @ JSON_stringify_indent2 stopped_event]"
  "buffer (snd (handleData verbose_listening_client
          (frame (utf8_encode (JSON_stringify stopped_event)) @ later))) = later"
proof -
  define b1 where "b1 =
         (log_msg ((base verbose_listening_client)\<lparr>handled := handled (base verbose_listening_client) @ [stopped_event]\<rparr>)
            (str ''Received event '' @ quoted (to_text (get_prop stopped_event ''event''))
             @ str '' ('' @ to_text (get_prop stopped_event ''seq'') @ str '')'')
            (Some (DetailJson stopped_event)))
         \<lparr>eventEmitter := (eventEmitter (base verbose_listening_client))(str ''stopped'' := [circular_listener]),
           calls := calls (base verbose_listening_client) @ [(cb_id circular_listener, None)]\<rparr>"
  have t: "try_block (base verbose_listening_client) (JSON_stringify stopped_event)
           = (Some (CircularError (str ''boom'')), b1)"
    unfolding b1_def
    by (rule try_block_stopped [OF verbose_listening_client_fields(8) circular_listener_fields(1,2)])
  have lv: "logLevel b1 = Verbose"
    by (simp add: b1_def verbose_listening_client_fields)
  have hb: "handle_body (base verbose_listening_client)
              (utf8_decode (utf8_encode (JSON_stringify stopped_event)))
            = (Some (JsError TypeError []), b1)"
    using stopped_nonempty
    by (simp add: utf8_roundtrip [OF stopped_ascii] handle_body_def t catch_block_def lv)
  have r: "handleData verbose_listening_client
          (frame (utf8_encode (JSON_stringify stopped_event)) @ later)
        = (Some (JsError TypeError []), verbose_listening_client\<lparr>buffer := later, base := b1\<rparr>)"
    using handleData_first_frame [OF verbose_listening_client_fields(1,2),
        of "utf8_encode (JSON_stringify stopped_event)" later]
    by (simp add: hb)
  have lines: "logger_lines b1
     = [str ''[client] Received event '' @ quoted (str ''stopped'') @ str '' (2) ''
        @ JSON_stringify_indent2 stopped_event]"
    using stopped_indent2
    by (simp add: b1_def log_msg_def stopped_detail Let_def verbose_listening_client_fields
        stopped_event_fields to_text_def quoted_def number_to_string_def nat_digits.simps
        digit_unit_def str_simps split del: if_split)
  show "fst (handleData verbose_listening_client
          (frame (utf8_encode (JSON_stringify stopped_event)) @ later)) = Some (JsError TypeError [])"
    by (simp add: r)
  show "handled (base (snd (handleData verbose_listening_client
          (frame (utf8_encode (JSON_stringify stopped_event)) @ later)))) = [stopped_event]"
    by (simp add: r) (simp add: b1_def verbose_listening_client_fields)
  show "calls (base (snd (handleData verbose_listening_client
          (frame (utf8_encode (JSON_stringify stopped_event)) @ later)))) = [(0, None)]"
    by (simp add: r) (simp add: b1_def verbose_listening_client_fields circular_listener_fields)
  show "logger_lines (base (snd (handleData verbose_listening_client
          (frame (utf8_encode (JSON_stringify stopped_event)) @ later))))
     = [str ''[client] Received event '' @ quoted (str ''stopped'') @ str '' (2) ''
        @ JSON_stringify_indent2 stopped_event]"
    by (simp add: r lines)
  show "buffer (snd (handleData verbose_listening_client
          (frame (utf8_encode (JSON_stringify stopped_event)) @ later))) = later"
    by (simp add: r)
qed

text \<open>
  C10. An exception can leave \<open>handleData\<close>. The client logs at the level \<open>Verbose\<close>, and its
  subscriber to \<open>stopped\<close> throws an error that refers to itself. A chunk brings a \<open>stopped\<close>
  event and then a request, both complete. The event is logged and the subscriber called; what
  it throws is caught, but \<open>log\<close> in the \<open>catch\<close> block serialises the thrown value with
  \<open>JSON.stringify\<close>, which throws a \<open>TypeError\<close>: that exception leaves \<open>handleData\<close>, no line
  \<open>Error handling message\<close> is logged, and the request stays in the buffer, neither decoded nor
  handled.
\<close>

theorem handleData_lets_exception_through:
  "fst (handleData verbose_listening_client
          (frame (utf8_encode (JSON_stringify stopped_event))
           @ frame (utf8_encode (JSON_stringify run_in_terminal_request))))
     = Some (JsError TypeError [])
   \<and> handled (base (snd (handleData verbose_listening_client
          (frame (utf8_encode (JSON_stringify stopped_event))
           @ frame (utf8_encode (JSON_stringify run_in_terminal_request))))))
     = [stopped_event]
   \<and> calls (base (snd (handleData verbose_listening_client
          (frame (utf8_encode (JSON_stringify stopped_event))
           @ frame (utf8_encode (JSON_stringify run_in_terminal_request))))))
     = [(0, None)]
   \<and> logger_lines (base (snd (handleData verbose_listening_client
          (frame (utf8_encode (JSON_stringify stopped_event))
           @ frame (utf8_encode (JSON_stringify run_in_terminal_request))))))
     = [str ''[client] Received event '' @ quoted (str ''stopped'') @ str '' (2) ''
        @ JSON_stringify_indent2 stopped_event]
   \<and> buffer (snd (handleData verbose_listening_client
          (frame (utf8_encode (JSON_stringify stopped_event))
           @ frame (utf8_encode (JSON_stringify run_in_terminal_request)))))
     = frame (utf8_encode (JSON_stringify run_in_terminal_request))"
  by (simp only: stopped_event_throws simp_thms)


lemma garbled_text: "utf8_decode garbled_body = str ''{oops''"
  by (simp add: garbled_body_def utf8_roundtrip str_simps)

lemma garbled_parse: "JSON_parse (str ''{oops'') = Inl (JsError SyntaxError [])"
  by (simp add: json_parse_defs split del: if_split)

lemma listening_client_fields:
  "buffer listening_client = []"
  "contentLength listening_client = Finite (- 1)"
  "logLevel (base listening_client) = On"
  "loggerName (base listening_client) = str ''client''"
  "handled (base listening_client) = []"
  "calls (base listening_client) = []"
  "logger_lines (base listening_client) = []"
  "eventEmitter (base listening_client) (str ''stopped'') = [throwing_listener]"
  "reverseRequestHandlers (base listening_client) = Map.empty"
  by (simp_all add: listening_client_def connected_client_def connectAdapter_def
      new_StreamDebugClient_def new_BaseDebugClient_def)

lemma throwing_listener_fields:
  "cb_throws throwing_listener None = Some (JsError Error (str ''boom''))"
  "\<not> once throwing_listener" "cb_id throwing_listener = 0"
  by (simp_all add: throwing_listener_def)

lemma log_line_On:
  "logLevel b = On \<Longrightarrow> logger_lines (log_msg b t d) = logger_lines b @ [str ''['' @ loggerName b @ str ''] '' @ t]"
  by (simp add: log_msg_def log_detail_message_def Let_def)

lemma handle_body_garbled:
  "handle_body b (str ''{oops'')
   = (None, log_msg b (str ''Error handling message '' @ quoted (str ''{oops''))
              (Some (DetailError (JsError SyntaxError []))))"
  by (simp add: handle_body_def try_block_def catch_block_def garbled_parse) (simp add: str_simps)

lemma handle_body_stopped:
  assumes l: "eventEmitter b (str ''stopped'') = [throwing_listener]"
  shows "handle_body b (JSON_stringify stopped_event)
     = (None,
        log_msg
         ((log_msg (b\<lparr>handled := handled b @ [stopped_event]\<rparr>)
            (str ''Received event '' @ quoted (to_text (get_prop stopped_event ''event''))
             @ str '' ('' @ to_text (get_prop stopped_event ''seq'') @ str '')'')
            (Some (DetailJson stopped_event)))
          \<lparr>eventEmitter := (eventEmitter b)(str ''stopped'' := [throwing_listener]),
            calls := calls b @ [(cb_id throwing_listener, None)]\<rparr>)
         (str ''Error handling message '' @ quoted (JSON_stringify stopped_event))
         (Some (DetailError (JsError Error (str ''boom'')))))"
  using stopped_nonempty
  by (simp add: handle_body_def try_block_stopped [OF l throwing_listener_fields(1,2)] catch_block_def)

lemma handle_body_run_in_terminal:
  "reverseRequestHandlers b (str ''runInTerminal'') = None \<Longrightarrow>
     handle_body b (JSON_stringify run_in_terminal_request)
     = (None,
        log_msg (b\<lparr>handled := handled b @ [run_in_terminal_request]\<rparr>)
          (received_request_text run_in_terminal_request @ str '' but no handler is registered'')
          (Some (DetailJson run_in_terminal_request)))"
  using run_in_terminal_nonempty
  by (simp add: handle_body_def try_block_def run_in_terminal_parse
      handleMessage_request [OF run_in_terminal_request_fields(1)]
      handle_request_def run_in_terminal_request_fields the_string_def)

text \<open>
  At the level \<open>On\<close>: a body that is no JSON text, a \<open>stopped\<close> event whose subscriber throws,
  and a request, in one chunk. Both exceptions are caught and logged, and the messages
  after them are handled.
\<close>

lemma exceptions_contained_at_level_On:
  "fst (handleData listening_client
          (concat (map frame [garbled_body, utf8_encode (JSON_stringify stopped_event),
                              utf8_encode (JSON_stringify run_in_terminal_request)]))) = None"
  "handled (base (snd (handleData listening_client
          (concat (map frame [garbled_body, utf8_encode (JSON_stringify stopped_event),
                              utf8_encode (JSON_stringify run_in_terminal_request)])))))
     = [stopped_event, run_in_terminal_request]"
  "calls (base (snd (handleData listening_client
          (concat (map frame [garbled_body, utf8_encode (JSON_stringify stopped_event),
                              utf8_encode (JSON_stringify run_in_terminal_request)])))))
     = [(0, None)]"
  "logger_lines (base (snd (handleData listening_client
          (concat (map frame [garbled_body, utf8_encode (JSON_stringify stopped_event),
                              utf8_encode (JSON_stringify run_in_terminal_request)])))))
     = [str ''[client] Error handling message '' @ quoted (str ''{oops''),
        str ''[client] Received event '' @ quoted (str ''stopped'') @ str '' (2)'',
        str ''[client] Error handling message '' @ quoted (JSON_stringify stopped_event),
        str ''[client] Received request '' @ quoted (str ''runInTerminal'')
          @ str '' (7) but no handler is registered'']"
  "buffer (snd (handleData listening_client
          (concat (map frame [garbled_body, utf8_encode (JSON_stringify stopped_event),
                              utf8_encode (JSON_stringify run_in_terminal_request)])))) = []"
proof -
  have lv: "logLevel (base listening_client) \<noteq> Verbose"
    by (simp add: listening_client_fields)
  define b1 where "b1 = snd (handle_body (base listening_client) (str ''{oops''))"
  have b1: "eventEmitter b1 (str ''stopped'') = [throwing_listener]" "handled b1 = []" "calls b1 = []"
    "reverseRequestHandlers b1 = Map.empty" "logLevel b1 = On" "loggerName b1 = str ''client''"
    "logger_lines b1 = [str ''[client] Error handling message '' @ quoted (str ''{oops'')]"
    by (simp_all add: b1_def handle_body_garbled listening_client_fields log_line_On)
       (simp add: str_def)
  define b2 where "b2 = snd (handle_body b1 (JSON_stringify stopped_event))"
  have b2: "handled b2 = [stopped_event]" "calls b2 = [(0, None)]"
    "reverseRequestHandlers b2 (str ''runInTerminal'') = None"
    "logLevel b2 = On" "loggerName b2 = str ''client''"
    "logger_lines b2 = logger_lines b1
       @ [str ''[client] Received event '' @ quoted (str ''stopped'') @ str '' (2)'',
          str ''[client] Error handling message '' @ quoted (JSON_stringify stopped_event)]"
    by (simp_all add: b2_def handle_body_stopped [OF b1(1)] b1 throwing_listener_fields log_line_On)
       (simp add: stopped_event_fields to_text_def quoted_def number_to_string_def nat_digits.simps
          digit_unit_def str_simps split del: if_split)
  define b3 where "b3 = snd (handle_body b2 (JSON_stringify run_in_terminal_request))"
  have b3: "handled b3 = [stopped_event, run_in_terminal_request]" "calls b3 = [(0, None)]"
    "logger_lines b3 = logger_lines b2
       @ [str ''[client] Received request '' @ quoted (str ''runInTerminal'')
          @ str '' (7) but no handler is registered'']"
    by (simp_all add: b3_def handle_body_run_in_terminal [OF b2(3)] b2 log_line_On)
       (simp add: received_request_text_def run_in_terminal_request_fields to_text_def quoted_def
          number_to_string_def nat_digits.simps digit_unit_def str_simps split del: if_split)
  have f: "foldl (\<lambda>b body. snd (handle_body b (utf8_decode body))) (base listening_client)
             [garbled_body, utf8_encode (JSON_stringify stopped_event),
              utf8_encode (JSON_stringify run_in_terminal_request)] = b3"
    by (simp add: garbled_text utf8_roundtrip [OF stopped_ascii] utf8_roundtrip [OF run_in_terminal_ascii]
        b3_def b2_def b1_def)
  have all: "handleData listening_client
        (concat (map frame [garbled_body, utf8_encode (JSON_stringify stopped_event),
                            utf8_encode (JSON_stringify run_in_terminal_request)]))
      = (None, listening_client\<lparr>base := b3\<rparr>)"
    using frames_handled_in_order [OF lv listening_client_fields(1,2),
        of "[garbled_body, utf8_encode (JSON_stringify stopped_event),
             utf8_encode (JSON_stringify run_in_terminal_request)]"]
    by (simp only: f)
  show "fst (handleData listening_client
          (concat (map frame [garbled_body, utf8_encode (JSON_stringify stopped_event),
                              utf8_encode (JSON_stringify run_in_terminal_request)]))) = None"
    by (simp only: all fst_conv)
  show "handled (base (snd (handleData listening_client
          (concat (map frame [garbled_body, utf8_encode (JSON_stringify stopped_event),
                              utf8_encode (JSON_stringify run_in_terminal_request)])))))
     = [stopped_event, run_in_terminal_request]"
    by (simp only: all snd_conv) (simp add: b3)
  show "calls (base (snd (handleData listening_client
          (concat (map frame [garbled_body, utf8_encode (JSON_stringify stopped_event),
                              utf8_encode (JSON_stringify run_in_terminal_request)])))))
     = [(0, None)]"
    by (simp only: all snd_conv) (simp add: b3)
  show "logger_lines (base (snd (handleData listening_client
          (concat (map frame [garbled_body, utf8_encode (JSON_stringify stopped_event),
                              utf8_encode (JSON_stringify run_in_terminal_request)])))))
     = [str ''[client] Error handling message '' @ quoted (str ''{oops''),
        str ''[client] Received event '' @ quoted (str ''stopped'') @ str '' (2)'',
        str ''[client] Error handling message '' @ quoted (JSON_stringify stopped_event),
        str ''[client] Received request '' @ quoted (str ''runInTerminal'')
          @ str '' (7) but no handler is registered'']"
    by (simp only: all snd_conv) (simp add: b3 b2 b1)
  show "buffer (snd (handleData listening_client
          (concat (map frame [garbled_body, utf8_encode (JSON_stringify stopped_event),
                              utf8_encode (JSON_stringify run_in_terminal_request)])))) = []"
    by (simp only: all snd_conv) (simp add: listening_client_fields)
qed

subsection \<open>An encoded message in two chunks\<close>

text \<open>
  The request \<open>runInTerminal\<close>, encoded by \<open>encodeMessage\<close> and cut after its 30th byte: both
  feeds end with the request decoded and handled, the buffer empty. And the \<open>stopped\<close> event,
  encoded and cut in the same way, on the client whose subscriber throws an error that refers
  to itself, at the level \<open>Verbose\<close>: both feeds end with the same \<open>TypeError\<close>, the event handled.
\<close>

theorem chunk_boundaries_do_not_matter_witness:
  "concat [take 30 (utf8_encode (encodeMessage run_in_terminal_request)),
           drop 30 (utf8_encode (encodeMessage run_in_terminal_request))]
     = utf8_encode (encodeMessage run_in_terminal_request)
   \<and> (2 :: nat) \<le> length [take 30 (utf8_encode (encodeMessage run_in_terminal_request)),
                  drop 30 (utf8_encode (encodeMessage run_in_terminal_request))]
   \<and> fst (handleData connected_client (utf8_encode (encodeMessage run_in_terminal_request))) = None
   \<and> feed connected_client [take 30 (utf8_encode (encodeMessage run_in_terminal_request)),
                             drop 30 (utf8_encode (encodeMessage run_in_terminal_request))]
       = handleData connected_client (utf8_encode (encodeMessage run_in_terminal_request))
   \<and> fst (feed connected_client [take 30 (utf8_encode (encodeMessage run_in_terminal_request)),
                                  drop 30 (utf8_encode (encodeMessage run_in_terminal_request))]) = None
   \<and> handled (base (snd (feed connected_client
         [take 30 (utf8_encode (encodeMessage run_in_terminal_request)),
          drop 30 (utf8_encode (encodeMessage run_in_terminal_request))])))
       = [run_in_terminal_request]
   \<and> buffer (snd (feed connected_client
         [take 30 (utf8_encode (encodeMessage run_in_terminal_request)),
          drop 30 (utf8_encode (encodeMessage run_in_terminal_request))])) = []
   \<and> contentLength (snd (feed connected_client
         [take 30 (utf8_encode (encodeMessage run_in_terminal_request)),
          drop 30 (utf8_encode (encodeMessage run_in_terminal_request))])) = Finite (- 1)
   \<and> length (take 30 (utf8_encode (encodeMessage run_in_terminal_request))) = 30
   \<and> length (drop 30 (utf8_encode (encodeMessage run_in_terminal_request))) = 68
   \<and> concat [take 30 (utf8_encode (encodeMessage stopped_event)),
             drop 30 (utf8_encode (encodeMessage stopped_event))]
       = utf8_encode (encodeMessage stopped_event)
   \<and> fst (handleData verbose_listening_client (utf8_encode (encodeMessage stopped_event)))
       = Some (JsError TypeError [])
   \<and> fst (feed verbose_listening_client [take 30 (utf8_encode (encodeMessage stopped_event)),
                                         drop 30 (utf8_encode (encodeMessage stopped_event))])
       = Some (JsError TypeError [])
   \<and> handled (base (snd (feed verbose_listening_client
         [take 30 (utf8_encode (encodeMessage stopped_event)),
          drop 30 (utf8_encode (encodeMessage stopped_event))])))
       = [stopped_event]"
proof -
  have len: "length (utf8_encode (encodeMessage run_in_terminal_request)) = 98"
    by (simp add: utf8_encode_ascii_all [OF run_in_terminal_ascii] encodeMessage_frame [OF run_in_terminal_ascii]
        frame_def utf8_encode_ascii_all [OF header_text_ascii, unfolded number_to_string_nat [symmetric]]
        )
       (simp add: run_in_terminal_text str_simps CONTENT_LENGTH_HEADER_def TWO_CRLF_def
        number_to_string_def nat_digits.simps digit_unit_def split del: if_split)
  have returns: "concat [take 30 (utf8_encode (encodeMessage run_in_terminal_request)),
           drop 30 (utf8_encode (encodeMessage run_in_terminal_request))]
     = utf8_encode (encodeMessage run_in_terminal_request)
   \<and> (2 :: nat) \<le> length [take 30 (utf8_encode (encodeMessage run_in_terminal_request)),
                  drop 30 (utf8_encode (encodeMessage run_in_terminal_request))]
   \<and> fst (handleData connected_client (utf8_encode (encodeMessage run_in_terminal_request))) = None
   \<and> feed connected_client [take 30 (utf8_encode (encodeMessage run_in_terminal_request)),
                             drop 30 (utf8_encode (encodeMessage run_in_terminal_request))]
       = handleData connected_client (utf8_encode (encodeMessage run_in_terminal_request))
   \<and> fst (feed connected_client [take 30 (utf8_encode (encodeMessage run_in_terminal_request)),
                                  drop 30 (utf8_encode (encodeMessage run_in_terminal_request))]) = None
   \<and> handled (base (snd (feed connected_client
         [take 30 (utf8_encode (encodeMessage run_in_terminal_request)),
          drop 30 (utf8_encode (encodeMessage run_in_terminal_request))])))
       = [run_in_terminal_request]
   \<and> buffer (snd (feed connected_client
         [take 30 (utf8_encode (encodeMessage run_in_terminal_request)),
          drop 30 (utf8_encode (encodeMessage run_in_terminal_request))])) = []
   \<and> contentLength (snd (feed connected_client
         [take 30 (utf8_encode (encodeMessage run_in_terminal_request)),
          drop 30 (utf8_encode (encodeMessage run_in_terminal_request))])) = Finite (- 1)
   \<and> length (take 30 (utf8_encode (encodeMessage run_in_terminal_request))) = 30
   \<and> length (drop 30 (utf8_encode (encodeMessage run_in_terminal_request))) = 68"
    using chunk_boundaries_do_not_matter
      [of "[take 30 (utf8_encode (encodeMessage run_in_terminal_request)),
            drop 30 (utf8_encode (encodeMessage run_in_terminal_request))]"
          run_in_terminal_request connected_client]
    by (simp add: run_in_terminal_decoded connected_client_idle len)
  have e: "utf8_encode (encodeMessage stopped_event)
           = frame (utf8_encode (JSON_stringify stopped_event)) @ []"
    by (simp add: encodeMessage_frame [OF stopped_ascii])
  have whole: "fst (handleData verbose_listening_client (utf8_encode (encodeMessage stopped_event)))
       = Some (JsError TypeError [])"
    "handled (base (snd (handleData verbose_listening_client (utf8_encode (encodeMessage stopped_event)))))
       = [stopped_event]"
    by (simp_all only: e stopped_event_throws)
  have throws: "concat [take 30 (utf8_encode (encodeMessage stopped_event)),
             drop 30 (utf8_encode (encodeMessage stopped_event))]
       = utf8_encode (encodeMessage stopped_event)
   \<and> fst (handleData verbose_listening_client (utf8_encode (encodeMessage stopped_event)))
       = Some (JsError TypeError [])
   \<and> fst (feed verbose_listening_client [take 30 (utf8_encode (encodeMessage stopped_event)),
                                         drop 30 (utf8_encode (encodeMessage stopped_event))])
       = Some (JsError TypeError [])
   \<and> handled (base (snd (feed verbose_listening_client
         [take 30 (utf8_encode (encodeMessage stopped_event)),
          drop 30 (utf8_encode (encodeMessage stopped_event))])))
       = [stopped_event]"
    using chunk_boundaries_do_not_matter
      [of "[take 30 (utf8_encode (encodeMessage stopped_event)),
            drop 30 (utf8_encode (encodeMessage stopped_event))]"
          stopped_event verbose_listening_client]
    by (simp add: whole)
  from conjI [OF returns throws] show ?thesis unfolding conj_assoc .
qed

subsection \<open>A message with a character outside ASCII\<close>

lemma evaluate_text:
  "JSON_stringify evaluate_request
   = str ''{\"seq\":1,\"type\":\"request\",\"command\":\"evaluate\",\"arguments\":{\"expression\":\"''
     @ [0xE9] @ str ''\"}}''"
  by (simp add: evaluate_request_def request_message_def object_literal_def json_text_defs
      split del: if_split)

lemma evaluate_lengths:
  "length (JSON_stringify evaluate_request) = 78"
  "length (utf8_encode (JSON_stringify evaluate_request)) = 79"
  by (simp_all add: evaluate_text str_simps is_high_surrogate_def is_low_surrogate_def
      split del: if_split)

lemma seventy_eight: "nat_digits 78 = str ''78''"
  by (simp add: nat_digits.simps digit_unit_def str_simps)

lemma evaluate_encoded:
  "utf8_encode (encodeMessage evaluate_request)
   = utf8_encode (CONTENT_LENGTH_HEADER @ str '': '' @ nat_digits 78 @ TWO_CRLF)
     @ utf8_encode (JSON_stringify evaluate_request)"
proof -
  have "encodeMessage evaluate_request
      = (CONTENT_LENGTH_HEADER @ str '': '' @ nat_digits 78 @ TWO_CRLF) @ JSON_stringify evaluate_request"
    using number_to_string_nat [of 78]
    by (simp add: encodeMessage_def Let_def evaluate_lengths)
  then show ?thesis
    by (simp only: utf8_encode_ascii [OF header_text_ascii] utf8_encode_ascii_all [OF header_text_ascii])
qed

text \<open>
  C1. \<open>encodeMessage\<close> writes \<open>body.length\<close> in the header, the number of UTF-16 code units of
  the JSON text, where the wire format asks for the number of bytes of its UTF-8 encoding.
  For the request \<open>evaluate\<close> with the expression \<open>U+00E9\<close> the header says 78: the JSON text
  has 78 code units, and 79 bytes follow the header.
\<close>

theorem encodeMessage_counts_code_units:
  "utf8_encode (encodeMessage evaluate_request)
     = utf8_encode (str ''Content-Length: 78'' @ TWO_CRLF) @ utf8_encode (JSON_stringify evaluate_request)
   \<and> length (JSON_stringify evaluate_request) = 78
   \<and> length (utf8_encode (JSON_stringify evaluate_request)) = 79"
  by (simp add: evaluate_encoded evaluate_lengths seventy_eight CONTENT_LENGTH_HEADER_def str_def)

lemma evaluate_bytes:
  "utf8_encode (JSON_stringify evaluate_request)
   = utf8_encode (str ''{\"seq\":1,\"type\":\"request\",\"command\":\"evaluate\",\"arguments\":{\"expression\":\"'')
     @ [0xC3, 0xA9, 0x22, 0x7D, 0x7D]"
  by (simp add: evaluate_text str_simps is_high_surrogate_def is_low_surrogate_def
      split del: if_split)

lemma evaluate_body_read:
  "utf8_decode (take 78 (utf8_encode (JSON_stringify evaluate_request)))
     = butlast (JSON_stringify evaluate_request)"
  "drop 78 (utf8_encode (JSON_stringify evaluate_request)) = [0x7D]"
  by (simp_all add: evaluate_text str_simps is_high_surrogate_def is_low_surrogate_def
      in_range_def cont_bits_def split del: if_split)

lemma evaluate_truncated_parse:
  "JSON_parse (butlast (JSON_stringify evaluate_request)) = Inl (JsError SyntaxError [])"
  by (simp add: evaluate_text json_parse_defs split del: if_split)

lemma loop_no_terminator:
  "\<not> js_ge (contentLength s) (Finite 0) \<Longrightarrow> indexOf (buffer s) (utf8_encode TWO_CRLF) = None
     \<Longrightarrow> handleData_loop s = (None, s)"
  by (subst handleData_loop.simps) simp

text \<open>
  C2. The same request, encoded by \<open>encodeMessage\<close> and given to \<open>handleData\<close> in one chunk
  from the empty decode state: the loop takes the 78 bytes the header announces as the body,
  the JSON text without its closing brace, \<open>JSON.parse\<close> throws, the \<open>catch\<close> block logs the
  body, no message is handled, and the brace stays in the buffer.
\<close>

theorem round_trip_loses_non_ascii_message:
  "fst (handleData connected_client (utf8_encode (encodeMessage evaluate_request))) = None
   \<and> handled (base (snd (handleData connected_client (utf8_encode (encodeMessage evaluate_request))))) = []
   \<and> buffer (snd (handleData connected_client (utf8_encode (encodeMessage evaluate_request)))) = [0x7D]
   \<and> contentLength (snd (handleData connected_client (utf8_encode (encodeMessage evaluate_request))))
       = Finite (- 1)
   \<and> logger_lines (base (snd (handleData connected_client (utf8_encode (encodeMessage evaluate_request)))))
       = [str ''[client] Error handling message '' @ quoted (butlast (JSON_stringify evaluate_request))]"
proof -
  define s where "s = connected_client\<lparr>buffer := buffer connected_client
                        @ utf8_encode (encodeMessage evaluate_request)\<rparr>"
  define b' where "b' = log_msg (base connected_client)
                  (str ''Error handling message '' @ quoted (butlast (JSON_stringify evaluate_request)))
                  (Some (DetailError (JsError SyntaxError [])))"
  have idle: "\<not> js_ge (contentLength s) (Finite 0)"
    by (simp add: s_def connected_client_idle)
  have buf: "buffer s = utf8_encode (CONTENT_LENGTH_HEADER @ str '': '' @ nat_digits 78 @ TWO_CRLF)
                @ utf8_encode (JSON_stringify evaluate_request)"
    by (simp add: s_def connected_client_idle evaluate_encoded)
  have len: "78 \<le> length (utf8_encode (JSON_stringify evaluate_request))"
    by (simp add: evaluate_lengths)
  have ne: "butlast (JSON_stringify evaluate_request) \<noteq> []"
    using evaluate_lengths(1) by (cases "JSON_stringify evaluate_request" rule: rev_cases) auto
  have hb: "handle_body (base s) (utf8_decode (take 78 (utf8_encode (JSON_stringify evaluate_request))))
            = (None, b')"
    using ne by (simp add: s_def b'_def evaluate_body_read handle_body_def try_block_def catch_block_def
        evaluate_truncated_parse evaluate_lengths connected_client_idle)
  have "handleData_loop s
      = handleData_loop (s\<lparr>buffer := [0x7D], contentLength := Finite (- 1), base := b'\<rparr>)"
    using loop_frame_returns [OF idle buf len hb]
    by (simp add: evaluate_body_read)
  also have "\<dots> = (None, s\<lparr>buffer := [0x7D], contentLength := Finite (- 1), base := b'\<rparr>)"
    by (rule loop_no_terminator) (simp_all add: two_crlf_bytes)
  finally have r: "handleData connected_client (utf8_encode (encodeMessage evaluate_request))
      = (None, s\<lparr>buffer := [0x7D], contentLength := Finite (- 1), base := b'\<rparr>)"
    by (simp add: handleData_def s_def)
  have lines: "logger_lines b'
      = [str ''[client] Error handling message '' @ quoted (butlast (JSON_stringify evaluate_request))]"
    by (simp add: b'_def log_msg_def log_detail_message_def Let_def connected_client_def connectAdapter_def
        new_StreamDebugClient_def new_BaseDebugClient_def str_def)
  show ?thesis
    by (simp add: r lines) (simp add: b'_def connected_client_idle)
qed

end
